theory Spec2Isabelle
  imports Main "HOL-Library.Word"
begin

unbundle bit_operations_syntax

section \<open>SOF mixer controls and mailbox block I/O\<close>

text \<open>
  A shallow embedding of \<^verbatim>\<open>sound/soc/sof/control.c\<close> (the kcontrol get and put handlers
  and the volume codec) and of the mailbox and block I/O helpers of the SOF core
  (\<^verbatim>\<open>sof_mailbox_write\<close>, \<^verbatim>\<open>sof_mailbox_read\<close>, \<^verbatim>\<open>sof_block_write\<close>,
  \<^verbatim>\<open>sof_block_read\<close>).

  Conventions. A C \<^verbatim>\<open>u32\<close> is a \<open>32 word\<close> and a byte an \<open>8 word\<close>. A C \<^verbatim>\<open>int\<close> or
  \<^verbatim>\<open>long\<close> is a HOL \<open>int\<close> holding the value, every conversion between widths or
  signedness being written out (\<open>uint\<close>, \<open>sint\<close>, \<open>word_of_int\<close>, \<open>mod 2 ^ w\<close>).
  Return codes are \<open>int\<close>, negative for an error as in the kernel.
\<close>

type_synonym u8 = "8 word"
type_synonym u32 = "32 word"

text \<open>
  Conversions. \<^verbatim>\<open>long\<close> to \<^verbatim>\<open>int\<close> keeps the low 32 bits, and so does \<^verbatim>\<open>size_t\<close> to
  \<^verbatim>\<open>int\<close>; \<^verbatim>\<open>int\<close> to \<^verbatim>\<open>size_t\<close> or to \<^verbatim>\<open>unsigned int\<close> is \<open>mod 2 ^ 64\<close> or
  \<open>mod 2 ^ 32\<close> (an LP64 kernel).
\<close>

definition to_int32 :: "int \<Rightarrow> int" where
  "to_int32 x = sint (word_of_int x :: u32)"

subsection \<open>Volume codec\<close>

text \<open>
  A read of a C array through a pointer: the table is the list of its entries, and an
  index outside the table is undefined behaviour in C, here \<open>None\<close>.
\<close>

definition array_read :: "'a list \<Rightarrow> int \<Rightarrow> 'a option" where
  "array_read a i = (if 0 \<le> i \<and> i < int (length a) then Some (a ! nat i) else None)"

text \<open>
  \<^verbatim>\<open>static inline u32 mixer_to_ipc(unsigned int value, u32 *volume_map, int size)\<close>.
  The comparison \<^verbatim>\<open>value >= size\<close> is made in \<^verbatim>\<open>unsigned int\<close>: \<open>size\<close> is converted
  (\<open>size mod 2 ^ 32\<close>).
\<close>

definition mixer_to_ipc :: "u32 \<Rightarrow> u32 list \<Rightarrow> int \<Rightarrow> u32 option" where
  "mixer_to_ipc val volume_map sz =
     (if sz mod 2 ^ 32 \<le> uint val then array_read volume_map (sz - 1)
      else array_read volume_map (uint val))"

text \<open>
  \<^verbatim>\<open>static inline u32 ipc_to_mixer(u32 value, u32 *volume_map, int size)\<close>: the
  \<^verbatim>\<open>for (i = 0; i < size; i++)\<close> loop, from the index \<open>i\<close> on. The result is the
  \<^verbatim>\<open>int\<close> index converted to \<^verbatim>\<open>u32\<close>.
\<close>

function ipc_to_mixer_loop :: "u32 \<Rightarrow> u32 list \<Rightarrow> int \<Rightarrow> int \<Rightarrow> u32 option" where
  "ipc_to_mixer_loop val volume_map sz i =
     (if i < sz then
        (case array_read volume_map i of
           None \<Rightarrow> None
         | Some e \<Rightarrow>
             if val \<le> e then Some (word_of_int i)
             else ipc_to_mixer_loop val volume_map sz (i + 1))
      else Some (word_of_int (i - 1)))"
  by pat_completeness auto
termination
  by (relation "measure (\<lambda>(val, volume_map, sz, i). nat (sz - i))") auto

definition ipc_to_mixer :: "u32 \<Rightarrow> u32 list \<Rightarrow> int \<Rightarrow> u32 option" where
  "ipc_to_mixer val volume_map sz = ipc_to_mixer_loop val volume_map sz 0"

subsection \<open>Register and block I/O\<close>

text \<open>
  Memory reached through a pointer is a function from the byte offset to the byte: a
  BAR of the device (\<^verbatim>\<open>sdev->bar[bar]\<close>), or the host memory at \<^verbatim>\<open>src\<close> and
  \<^verbatim>\<open>dest\<close>. Staying inside the mapped window is the caller's obligation, and the
  functions below make no bounds check, as the C code makes none.

  The 32-bit accessors are little-endian: \<^verbatim>\<open>ioread32\<close> and \<^verbatim>\<open>iowrite32\<close> by
  definition, and the plain load \<^verbatim>\<open>*(u32 *)p\<close> because the driver runs on a
  little-endian CPU.
\<close>

type_synonym mem = "nat \<Rightarrow> u8"

definition le32 :: "u8 \<Rightarrow> u8 \<Rightarrow> u8 \<Rightarrow> u8 \<Rightarrow> u32" where
  "le32 b0 b1 b2 b3 =
     ucast b0 OR push_bit 8 (ucast b1) OR push_bit 16 (ucast b2) OR push_bit 24 (ucast b3)"

definition byte_of :: "u32 \<Rightarrow> nat \<Rightarrow> u8" where
  "byte_of w k = ucast (drop_bit (8 * k) w)"

text \<open>\<^verbatim>\<open>ioread32(addr)\<close>, and the load \<^verbatim>\<open>*(u32 *)addr\<close> from host memory.\<close>

definition read32 :: "mem \<Rightarrow> nat \<Rightarrow> u32" where
  "read32 m a = le32 (m a) (m (a + 1)) (m (a + 2)) (m (a + 3))"

text \<open>\<^verbatim>\<open>iowrite32(value, addr)\<close>.\<close>

definition write32 :: "mem \<Rightarrow> nat \<Rightarrow> u32 \<Rightarrow> mem" where
  "write32 m a w = (\<lambda>x. if a \<le> x \<and> x < a + 4 then byte_of w (x - a) else m x)"




text \<open>
  \<^verbatim>\<open>sof_mailbox_write\<close> and \<^verbatim>\<open>sof_mailbox_read\<close>: \<^verbatim>\<open>memcpy_toio\<close> and
  \<^verbatim>\<open>memcpy_fromio\<close> at \<^verbatim>\<open>sdev->bar[sdev->mailbox_bar] + offset\<close>.
\<close>

definition sof_mailbox_write :: "(nat \<Rightarrow> mem) \<Rightarrow> nat \<Rightarrow> nat \<Rightarrow> mem \<Rightarrow> nat \<Rightarrow> (nat \<Rightarrow> mem)" where
  "sof_mailbox_write bars mailbox_bar offset message bytes =
     bars(mailbox_bar := (\<lambda>a. if offset \<le> a \<and> a < offset + bytes then message (a - offset)
                               else bars mailbox_bar a))"

definition sof_mailbox_read :: "(nat \<Rightarrow> mem) \<Rightarrow> nat \<Rightarrow> nat \<Rightarrow> mem \<Rightarrow> nat \<Rightarrow> mem" where
  "sof_mailbox_read bars mailbox_bar offset message bytes =
     (\<lambda>i. if i < bytes then bars mailbox_bar (offset + i) else message i)"

subsection \<open>Control state and the environment of the handlers\<close>

text \<open>
  \<^verbatim>\<open>struct sof_ipc_ctrl_value_chan\<close> and \<^verbatim>\<open>struct sof_ipc_ctrl_data\<close>. The channel
  array \<^verbatim>\<open>chanv[]\<close> and the binary \<^verbatim>\<open>data\<close> are memory behind the control data (a
  function of the index, of the byte offset); a value control uses the first and a
  bytes control the second, so they are two fields here.
\<close>

record sof_ipc_ctrl_value_chan =
  channel :: u32
  chan_val :: u32

record sof_ipc_ctrl_data =
  chanv :: "nat \<Rightarrow> sof_ipc_ctrl_value_chan"
  data :: mem

text \<open>The widget types the switch handler tells apart, and any other.\<close>

datatype snd_soc_dapm_type = snd_soc_dapm_pga | snd_soc_dapm_siggen | snd_soc_dapm_other nat

record snd_sof_widget =
  widget_comp_id :: int
  widget_id :: snd_soc_dapm_type

record snd_sof_control =
  comp_id :: int
  num_channels :: nat
  cmd :: u32
  volume_table :: "u32 list"
  vfe_link_name :: string

text \<open>
  \<^verbatim>\<open>struct snd_ctl_elem_value\<close>: the three views of \<^verbatim>\<open>ucontrol->value\<close> the handlers
  use (\<^verbatim>\<open>long integer.value[]\<close>, \<^verbatim>\<open>unsigned int enumerated.item[]\<close>,
  \<^verbatim>\<open>unsigned char bytes.data[512]\<close>).
\<close>

record snd_ctl_elem_value =
  integer_value :: "nat \<Rightarrow> int"
  enumerated_item :: "nat \<Rightarrow> u32"
  bytes_data :: mem

text \<open>A runtime of the card, with the fields \<^verbatim>\<open>set_vfe_active_status\<close> touches.\<close>

record snd_soc_pcm_runtime =
  dai_link_name :: string
  dpcm_playback :: bool
  dpcm_capture :: bool
  cpu_playback_active :: int
  codec_playback_active :: int
  cpu_capture_active :: int
  codec_capture_active :: int
  cpu_active :: u32

datatype ipc_cmd =
  SOF_IPC_COMP_SET_VALUE | SOF_IPC_COMP_GET_VALUE | SOF_IPC_COMP_SET_DATA | SOF_IPC_COMP_GET_DATA

datatype sof_ctrl_type =
  SOF_CTRL_TYPE_VALUE_CHAN_GET | SOF_CTRL_TYPE_DATA_GET | SOF_CTRL_TYPE_DATA_SET

text \<open>The command of a transaction: one of the three constants, or \<^verbatim>\<open>scontrol->cmd\<close>.\<close>

datatype sof_ctrl_cmd =
  SOF_CTRL_CMD_VOLUME | SOF_CTRL_CMD_ENUM | SOF_CTRL_CMD_SWITCH | Control_cmd u32

text \<open>One call of \<^verbatim>\<open>snd_sof_ipc_set_get_comp_data\<close>: its arguments and the control data it is given.\<close>

record ipc_call =
  call_comp_id :: int
  call_num_channels :: nat
  call_ipc_cmd :: ipc_cmd
  call_type :: sof_ctrl_type
  call_cmd :: sof_ctrl_cmd
  call_send :: bool
  call_data :: sof_ipc_ctrl_data

datatype stream_cmd = SOF_IPC_STREAM_PCM_FREE | SOF_IPC_STREAM_TRIG_START

text \<open>One call of \<^verbatim>\<open>sof_ipc_tx_message\<close> by the signal generator helpers.\<close>

datatype tx_msg = Tx_pcm_params int nat | Tx_stream stream_cmd int

datatype pm_call = PM_get_sync | PM_put_noidle | PM_mark_last_busy | PM_put_autosuspend

text \<open>
  What the handlers consume from outside \<^verbatim>\<open>control.c\<close>: the results of the runtime
  power management calls, the DSP behind the two IPC entry points, and the ABI
  constants and the layout of \<^verbatim>\<open>struct sof_abi_hdr\<close>, which are declared in headers.
  Every theorem below holds for all of them.
\<close>

record sof_env =
  resume_ret :: int
  idle_ret :: int
  dsp_comp_data :: "ipc_call \<Rightarrow> int \<times> sof_ipc_ctrl_data"
  dsp_tx :: "tx_msg \<Rightarrow> int"
  SOF_ABI_MAGIC :: u32
  SOF_ABI_VERSION :: u32
  SOF_ABI_VERSION_INCOMPATIBLE :: "u32 \<Rightarrow> u32 \<Rightarrow> bool"
  sizeof_sof_abi_hdr :: nat
  offsetof_magic :: nat
  offsetof_abi :: nat
  offsetof_size :: nat

text \<open>
  The state a handler works on: the usage count of the device, the calls made so far
  (power management, component data IPC, other IPC messages), the control data of the
  control (\<^verbatim>\<open>scontrol->control_data\<close>), and the widgets and runtimes of the card.
\<close>

record sof_state =
  usage_count :: int
  pm_trace :: "pm_call list"
  ipc_trace :: "ipc_call list"
  tx_trace :: "tx_msg list"
  control_data :: sof_ipc_ctrl_data
  widget_list :: "snd_sof_widget list"
  rtd_list :: "snd_soc_pcm_runtime list"
  dpcm_updates :: nat

definition EINVAL :: int where "EINVAL = 22"
definition EFAULT :: int where "EFAULT = 14"

text \<open>
  Modelled from the spec: the runtime power management calls, which belong to the
  kernel core and whose source is not among the files modelled here.
  "DeviceActivity: reference-counted; incremented on transaction entry, decremented
  on transaction exit". \<^verbatim>\<open>pm_runtime_get_sync\<close> takes its reference whether or not
  the resume succeeds, \<^verbatim>\<open>pm_runtime_put_noidle\<close> and \<^verbatim>\<open>pm_runtime_put_autosuspend\<close>
  drop one. The result of the resume and of the idle request are given by the
  environment.
\<close>

definition pm_runtime_get_sync :: "sof_env \<Rightarrow> sof_state \<Rightarrow> int \<times> sof_state" where
  "pm_runtime_get_sync env s =
     (resume_ret env, s\<lparr>usage_count := usage_count s + 1, pm_trace := pm_trace s @ [PM_get_sync]\<rparr>)"

definition pm_runtime_put_noidle :: "sof_state \<Rightarrow> sof_state" where
  "pm_runtime_put_noidle s =
     s\<lparr>usage_count := usage_count s - 1, pm_trace := pm_trace s @ [PM_put_noidle]\<rparr>"

definition pm_runtime_mark_last_busy :: "sof_state \<Rightarrow> sof_state" where
  "pm_runtime_mark_last_busy s = s\<lparr>pm_trace := pm_trace s @ [PM_mark_last_busy]\<rparr>"

definition pm_runtime_put_autosuspend :: "sof_env \<Rightarrow> sof_state \<Rightarrow> int \<times> sof_state" where
  "pm_runtime_put_autosuspend env s =
     (idle_ret env,
      s\<lparr>usage_count := usage_count s - 1, pm_trace := pm_trace s @ [PM_put_autosuspend]\<rparr>)"

text \<open>
  The exit sequence every handler ends with: \<^verbatim>\<open>pm_runtime_mark_last_busy\<close>, then
  \<^verbatim>\<open>pm_runtime_put_autosuspend\<close>, whose error \<^verbatim>\<open>err\<close> is logged and dropped.
\<close>

definition pm_idle :: "sof_env \<Rightarrow> sof_state \<Rightarrow> sof_state" where
  "pm_idle env s = snd (pm_runtime_put_autosuspend env (pm_runtime_mark_last_busy s))"

text \<open>
  Modelled from the spec: \<^verbatim>\<open>snd_sof_ipc_set_get_comp_data\<close>, which is defined in the
  IPC layer and whose source is not among the files modelled here.
  "RPC primitive (consumed): send(command, payload, expected reply size) -> Result":
  one synchronous transaction, which returns a code and may write the reply into the
  control data. The call is recorded with the control data it carries.
\<close>

definition snd_sof_ipc_set_get_comp_data ::
  "sof_env \<Rightarrow> snd_sof_control \<Rightarrow> ipc_cmd \<Rightarrow> sof_ctrl_type \<Rightarrow> sof_ctrl_cmd \<Rightarrow> bool \<Rightarrow>
   sof_state \<Rightarrow> int \<times> sof_state" where
  "snd_sof_ipc_set_get_comp_data env scontrol icmd ctype ccmd send s =
     (let call = \<lparr>call_comp_id = comp_id scontrol, call_num_channels = num_channels scontrol,
                  call_ipc_cmd = icmd, call_type = ctype, call_cmd = ccmd, call_send = send,
                  call_data = control_data s\<rparr>;
          (ret, cdata) = dsp_comp_data env call
      in (ret, s\<lparr>ipc_trace := ipc_trace s @ [call], control_data := cdata\<rparr>))"

text \<open>
  Modelled from the spec: \<^verbatim>\<open>sof_ipc_tx_message\<close>, of the same IPC layer; the same RPC
  primitive, for the messages of the signal generator helpers.
\<close>

definition sof_ipc_tx_message :: "sof_env \<Rightarrow> tx_msg \<Rightarrow> sof_state \<Rightarrow> int \<times> sof_state" where
  "sof_ipc_tx_message env msg s = (dsp_tx env msg, s\<lparr>tx_trace := tx_trace s @ [msg]\<rparr>)"

text \<open>The fields of the \<^verbatim>\<open>struct sof_abi_hdr\<close> at the start of \<^verbatim>\<open>cdata->data\<close>.\<close>

definition abi_hdr_magic :: "sof_env \<Rightarrow> mem \<Rightarrow> u32" where
  "abi_hdr_magic env d = read32 d (offsetof_magic env)"

definition abi_hdr_abi :: "sof_env \<Rightarrow> mem \<Rightarrow> u32" where
  "abi_hdr_abi env d = read32 d (offsetof_abi env)"

definition abi_hdr_size :: "sof_env \<Rightarrow> mem \<Rightarrow> u32" where
  "abi_hdr_size env d = read32 d (offsetof_size env)"

text \<open>\<^verbatim>\<open>memcpy(dst, src, n)\<close> between two kernel buffers.\<close>

definition memcpy :: "mem \<Rightarrow> mem \<Rightarrow> nat \<Rightarrow> mem" where
  "memcpy dst src n = (\<lambda>i. if i < n then src i else dst i)"

text \<open>
  Modelled from the spec: the user copies of the kernel core (\<^verbatim>\<open>copy_from_user\<close>,
  \<^verbatim>\<open>copy_to_user\<close>), whose source is not among the files modelled here; the
  specification only says that the extended variant is "transported through a
  caller-supplied buffer", so the rest is the documented contract of the two
  functions. The memory of the caller at \<^verbatim>\<open>binary_data\<close> is the list of its
  accessible bytes. A copy moves the bytes that are accessible and returns the number
  of bytes it could not copy; \<^verbatim>\<open>copy_from_user\<close> fills the rest of the destination
  with zero bytes.
\<close>

definition copy_from_user :: "mem \<Rightarrow> u8 list \<Rightarrow> nat \<Rightarrow> nat \<Rightarrow> nat \<times> mem" where
  "copy_from_user to umem from n =
     (let k = min n (length umem - from)
      in (n - k, \<lambda>i. if i < k then umem ! (from + i) else if i < n then 0 else to i))"

definition copy_to_user :: "u8 list \<Rightarrow> nat \<Rightarrow> mem \<Rightarrow> nat \<Rightarrow> nat \<times> u8 list" where
  "copy_to_user umem to from n =
     (let k = min n (length umem - to)
      in (n - k, take to umem @ map from [0..<k] @ drop (to + k) umem))"

subsection \<open>Helpers of the switch handler\<close>

text \<open>
  \<^verbatim>\<open>get_widget_type\<close>: the type of the first widget of the component the control is
  attached to; \<open>None\<close> is the \<^verbatim>\<open>-EINVAL\<close> of a standalone control.
\<close>

fun get_widget_type :: "snd_sof_widget list \<Rightarrow> snd_sof_control \<Rightarrow> snd_soc_dapm_type option" where
  "get_widget_type [] scontrol = None"
| "get_widget_type (swidget # rest) scontrol =
     (if widget_comp_id swidget = comp_id scontrol then Some (widget_id swidget)
      else get_widget_type rest scontrol)"

definition siggen_pcm_params :: "sof_env \<Rightarrow> snd_sof_control \<Rightarrow> sof_state \<Rightarrow> int \<times> sof_state" where
  "siggen_pcm_params env scontrol s =
     sof_ipc_tx_message env (Tx_pcm_params (comp_id scontrol) (num_channels scontrol)) s"

definition siggen_trigger ::
  "sof_env \<Rightarrow> snd_sof_control \<Rightarrow> stream_cmd \<Rightarrow> sof_state \<Rightarrow> int \<times> sof_state" where
  "siggen_trigger env scontrol c s = sof_ipc_tx_message env (Tx_stream c (comp_id scontrol)) s"

definition set_vfe_active_rtd :: "snd_sof_control \<Rightarrow> int \<Rightarrow> snd_soc_pcm_runtime \<Rightarrow> snd_soc_pcm_runtime" where
  "set_vfe_active_rtd scontrol status rtd =
     (if dai_link_name rtd = vfe_link_name scontrol then
        let rtd = (if dpcm_playback rtd
                   then rtd\<lparr>cpu_playback_active := status, codec_playback_active := status\<rparr>
                   else rtd);
            rtd = (if dpcm_capture rtd
                   then rtd\<lparr>cpu_capture_active := status, codec_capture_active := status\<rparr>
                   else rtd)
        in if status \<noteq> 0 then rtd\<lparr>cpu_active := cpu_active rtd + 1\<rparr>
           else rtd\<lparr>cpu_active := cpu_active rtd - 1\<rparr>
      else rtd)"

definition set_vfe_active_status :: "snd_sof_control \<Rightarrow> int \<Rightarrow> sof_state \<Rightarrow> sof_state" where
  "set_vfe_active_status scontrol status s =
     s\<lparr>rtd_list := map (set_vfe_active_rtd scontrol status) (rtd_list s)\<rparr>"

text \<open>\<^verbatim>\<open>snd_soc_dpcm_runtime_update(card)\<close>, of the sound core: counted only.\<close>

definition snd_soc_dpcm_runtime_update :: "sof_state \<Rightarrow> sof_state" where
  "snd_soc_dpcm_runtime_update s = s\<lparr>dpcm_updates := Suc (dpcm_updates s)\<rparr>"

definition siggen_pipeline_trigger ::
  "sof_env \<Rightarrow> snd_sof_control \<Rightarrow> int \<Rightarrow> sof_state \<Rightarrow> int \<times> sof_state" where
  "siggen_pipeline_trigger env scontrol new_state s =
     (if new_state = 0 then
        siggen_trigger env scontrol SOF_IPC_STREAM_PCM_FREE (set_vfe_active_status scontrol 0 s)
      else
        let s = snd_soc_dpcm_runtime_update (set_vfe_active_status scontrol 1 s);
            (ret, s) = siggen_pcm_params env scontrol s
        in if ret < 0 then (ret, s)
           else siggen_trigger env scontrol SOF_IPC_STREAM_TRIG_START s)"

subsection \<open>Value controls: volume, switch, enum\<close>

text \<open>
  The loops \<^verbatim>\<open>for (i = 0; i < channels; i++)\<close> of the volume handlers, by the number
  of channels done. A table read outside the table (\<open>None\<close>) makes the whole handler
  undefined.
\<close>

primrec volume_get_loop ::
  "nat \<Rightarrow> snd_sof_control \<Rightarrow> int \<Rightarrow> sof_ipc_ctrl_data \<Rightarrow> snd_ctl_elem_value \<Rightarrow>
   snd_ctl_elem_value option" where
  "volume_get_loop 0 scontrol sm_max cdata ucontrol = Some ucontrol"
| "volume_get_loop (Suc i) scontrol sm_max cdata ucontrol =
     (case volume_get_loop i scontrol sm_max cdata ucontrol of
        None \<Rightarrow> None
      | Some u \<Rightarrow>
          (case ipc_to_mixer (chan_val (chanv cdata i)) (volume_table scontrol) (sm_max + 1) of
             None \<Rightarrow> None
           | Some v \<Rightarrow> Some (u\<lparr>integer_value := (integer_value u)(i := uint v)\<rparr>)))"

primrec volume_put_loop ::
  "nat \<Rightarrow> snd_sof_control \<Rightarrow> int \<Rightarrow> snd_ctl_elem_value \<Rightarrow> sof_ipc_ctrl_data \<Rightarrow>
   sof_ipc_ctrl_data option" where
  "volume_put_loop 0 scontrol sm_max ucontrol cdata = Some cdata"
| "volume_put_loop (Suc i) scontrol sm_max ucontrol cdata =
     (case volume_put_loop i scontrol sm_max ucontrol cdata of
        None \<Rightarrow> None
      | Some cd \<Rightarrow>
          (case mixer_to_ipc (word_of_int (integer_value ucontrol i)) (volume_table scontrol)
                  (sm_max + 1) of
             None \<Rightarrow> None
           | Some v \<Rightarrow>
               Some (cd\<lparr>chanv := (chanv cd)(i := \<lparr>channel = word_of_nat i, chan_val = v\<rparr>)\<rparr>)))"

definition snd_sof_volume_get ::
  "sof_env \<Rightarrow> int \<Rightarrow> snd_sof_control \<Rightarrow> snd_ctl_elem_value \<Rightarrow> sof_state \<Rightarrow>
   (int \<times> snd_ctl_elem_value \<times> sof_state) option" where
  "snd_sof_volume_get env sm_max scontrol ucontrol s0 =
     (let (ret, s1) = pm_runtime_get_sync env s0 in
      if ret < 0 then Some (ret, ucontrol, pm_runtime_put_noidle s1)
      else
        let (r, s2) = snd_sof_ipc_set_get_comp_data env scontrol SOF_IPC_COMP_GET_VALUE
                        SOF_CTRL_TYPE_VALUE_CHAN_GET SOF_CTRL_CMD_VOLUME False s1
        in case volume_get_loop (num_channels scontrol) scontrol sm_max (control_data s2) ucontrol of
             None \<Rightarrow> None
           | Some u \<Rightarrow> Some (0, u, pm_idle env s2))"

definition snd_sof_volume_put ::
  "sof_env \<Rightarrow> int \<Rightarrow> snd_sof_control \<Rightarrow> snd_ctl_elem_value \<Rightarrow> sof_state \<Rightarrow>
   (int \<times> sof_state) option" where
  "snd_sof_volume_put env sm_max scontrol ucontrol s0 =
     (let (ret, s1) = pm_runtime_get_sync env s0 in
      if ret < 0 then Some (ret, pm_runtime_put_noidle s1)
      else
        case volume_put_loop (num_channels scontrol) scontrol sm_max ucontrol (control_data s1) of
          None \<Rightarrow> None
        | Some cd \<Rightarrow>
            let (r, s2) = snd_sof_ipc_set_get_comp_data env scontrol SOF_IPC_COMP_SET_VALUE
                            SOF_CTRL_TYPE_VALUE_CHAN_GET SOF_CTRL_CMD_VOLUME True
                            (s1\<lparr>control_data := cd\<rparr>)
            in Some (0, pm_idle env s2))"

text \<open>The read-back loop of the switch handler, and of the enum handler.\<close>

definition switch_read_back :: "nat \<Rightarrow> sof_ipc_ctrl_data \<Rightarrow> snd_ctl_elem_value \<Rightarrow> snd_ctl_elem_value" where
  "switch_read_back channels cdata ucontrol =
     fold (\<lambda>i u. u\<lparr>integer_value := (integer_value u)(i := uint (chan_val (chanv cdata i)))\<rparr>)
       [0..<channels] ucontrol"

definition enum_read_back :: "nat \<Rightarrow> sof_ipc_ctrl_data \<Rightarrow> snd_ctl_elem_value \<Rightarrow> snd_ctl_elem_value" where
  "enum_read_back channels cdata ucontrol =
     fold (\<lambda>i u. u\<lparr>enumerated_item := (enumerated_item u)(i := chan_val (chanv cdata i))\<rparr>)
       [0..<channels] ucontrol"

definition snd_sof_switch_get ::
  "sof_env \<Rightarrow> snd_sof_control \<Rightarrow> snd_ctl_elem_value \<Rightarrow> sof_state \<Rightarrow>
   int \<times> snd_ctl_elem_value \<times> sof_state" where
  "snd_sof_switch_get env scontrol ucontrol s0 =
     (let (ret, s1) = pm_runtime_get_sync env s0 in
      if ret < 0 then (ret, ucontrol, pm_runtime_put_noidle s1)
      else
        let (r, s2) = snd_sof_ipc_set_get_comp_data env scontrol SOF_IPC_COMP_GET_VALUE
                        SOF_CTRL_TYPE_VALUE_CHAN_GET SOF_CTRL_CMD_SWITCH False s1
        in (0, switch_read_back (num_channels scontrol) (control_data s2) ucontrol,
            pm_idle env s2))"

text \<open>
  The body of the channel loop of \<^verbatim>\<open>snd_sof_switch_put\<close>: for a PGA widget the
  values are per channel (\<open>j = i\<close>); for a signal generator, a routing or a standalone
  control, \<^verbatim>\<open>new_state\<close> and \<^verbatim>\<open>old_state\<close> are read at index 0 in every iteration
  (\<open>j = 0\<close>). \<^verbatim>\<open>new_state\<close> and \<^verbatim>\<open>old_state\<close> are \<^verbatim>\<open>int\<close>s.
\<close>

definition switch_put_step ::
  "snd_ctl_elem_value \<Rightarrow> (nat \<Rightarrow> nat) \<Rightarrow> nat \<Rightarrow> sof_ipc_ctrl_data \<times> int \<Rightarrow> sof_ipc_ctrl_data \<times> int" where
  "switch_put_step ucontrol idx i = (\<lambda>(cdata, changed).
     let new_state = to_int32 (integer_value ucontrol (idx i));
         old_state = sint (chan_val (chanv cdata (idx i)));
         changed = (if new_state \<noteq> old_state then 1 else changed)
     in (cdata\<lparr>chanv := (chanv cdata)
                  (i := \<lparr>channel = word_of_nat i, chan_val = word_of_int new_state\<rparr>)\<rparr>,
         changed))"

definition switch_put_loop ::
  "snd_ctl_elem_value \<Rightarrow> (nat \<Rightarrow> nat) \<Rightarrow> nat \<Rightarrow> sof_ipc_ctrl_data \<Rightarrow> sof_ipc_ctrl_data \<times> int" where
  "switch_put_loop ucontrol idx channels cdata =
     fold (switch_put_step ucontrol idx) [0..<channels] (cdata, 0)"

definition switch_notify :: "sof_env \<Rightarrow> snd_sof_control \<Rightarrow> sof_state \<Rightarrow> int \<times> sof_state" where
  "switch_notify env scontrol s =
     snd_sof_ipc_set_get_comp_data env scontrol SOF_IPC_COMP_SET_VALUE
       SOF_CTRL_TYPE_VALUE_CHAN_GET SOF_CTRL_CMD_SWITCH True s"

definition snd_sof_switch_put ::
  "sof_env \<Rightarrow> snd_sof_control \<Rightarrow> snd_ctl_elem_value \<Rightarrow> sof_state \<Rightarrow> int \<times> sof_state" where
  "snd_sof_switch_put env scontrol ucontrol s0 =
     (let (ret, s1) = pm_runtime_get_sync env s0 in
      if ret < 0 then (ret, pm_runtime_put_noidle s1)
      else
        let s2 =
          (case get_widget_type (widget_list s1) scontrol of
             Some snd_soc_dapm_pga \<Rightarrow>
               let (cdata, changed) =
                     switch_put_loop ucontrol (\<lambda>i. i) (num_channels scontrol) (control_data s1);
                   s = s1\<lparr>control_data := cdata\<rparr>
               in if changed \<noteq> 0 then snd (switch_notify env scontrol s) else s
           | Some snd_soc_dapm_siggen \<Rightarrow>
               let (cdata, changed) =
                     switch_put_loop ucontrol (\<lambda>i. 0) (num_channels scontrol) (control_data s1);
                   s = s1\<lparr>control_data := cdata\<rparr>
               in if changed \<noteq> 0 then
                    snd (siggen_pipeline_trigger env scontrol
                           (to_int32 (integer_value ucontrol 0))
                           (snd (switch_notify env scontrol s)))
                  else s
           | _ \<Rightarrow>
               let (cdata, changed) =
                     switch_put_loop ucontrol (\<lambda>i. 0) (num_channels scontrol) (control_data s1);
                   s = s1\<lparr>control_data := cdata\<rparr>
               in if changed \<noteq> 0 then snd (switch_notify env scontrol s) else s)
        in (0, pm_idle env s2))"

definition snd_sof_enum_get ::
  "sof_env \<Rightarrow> snd_sof_control \<Rightarrow> snd_ctl_elem_value \<Rightarrow> sof_state \<Rightarrow>
   int \<times> snd_ctl_elem_value \<times> sof_state" where
  "snd_sof_enum_get env scontrol ucontrol s0 =
     (let (ret, s1) = pm_runtime_get_sync env s0 in
      if ret < 0 then (ret, ucontrol, pm_runtime_put_noidle s1)
      else
        let (r, s2) = snd_sof_ipc_set_get_comp_data env scontrol SOF_IPC_COMP_GET_VALUE
                        SOF_CTRL_TYPE_VALUE_CHAN_GET SOF_CTRL_CMD_ENUM False s1
        in (0, enum_read_back (num_channels scontrol) (control_data s2) ucontrol,
            pm_idle env s2))"

definition enum_put_loop :: "snd_ctl_elem_value \<Rightarrow> nat \<Rightarrow> sof_ipc_ctrl_data \<Rightarrow> sof_ipc_ctrl_data" where
  "enum_put_loop ucontrol channels cdata =
     fold (\<lambda>i cd. cd\<lparr>chanv := (chanv cd)
                  (i := \<lparr>channel = word_of_nat i, chan_val = enumerated_item ucontrol i\<rparr>)\<rparr>)
       [0..<channels] cdata"

definition snd_sof_enum_put ::
  "sof_env \<Rightarrow> snd_sof_control \<Rightarrow> snd_ctl_elem_value \<Rightarrow> sof_state \<Rightarrow> int \<times> sof_state" where
  "snd_sof_enum_put env scontrol ucontrol s0 =
     (let (ret, s1) = pm_runtime_get_sync env s0 in
      if ret < 0 then (ret, pm_runtime_put_noidle s1)
      else
        let s = s1\<lparr>control_data := enum_put_loop ucontrol (num_channels scontrol) (control_data s1)\<rparr>;
            (r, s2) = snd_sof_ipc_set_get_comp_data env scontrol SOF_IPC_COMP_SET_VALUE
                        SOF_CTRL_TYPE_VALUE_CHAN_GET SOF_CTRL_CMD_ENUM True s
        in (0, pm_idle env s2))"

subsection \<open>Bytes controls\<close>

text \<open>
  \<open>be_max\<close> is \<^verbatim>\<open>be->max\<close>, an \<^verbatim>\<open>int\<close> that comes from the topology. In
  \<^verbatim>\<open>snd_sof_bytes_get\<close> and \<^verbatim>\<open>snd_sof_bytes_put\<close> the size is a \<^verbatim>\<open>size_t\<close> and the
  comparisons with \<^verbatim>\<open>be->max\<close> are made in \<^verbatim>\<open>size_t\<close>.
\<close>

definition abi_total_size :: "sof_env \<Rightarrow> mem \<Rightarrow> int" where
  "abi_total_size env d = (uint (abi_hdr_size env d) + int (sizeof_sof_abi_hdr env)) mod 2 ^ 64"

definition snd_sof_bytes_get ::
  "sof_env \<Rightarrow> int \<Rightarrow> snd_sof_control \<Rightarrow> snd_ctl_elem_value \<Rightarrow> sof_state \<Rightarrow>
   int \<times> snd_ctl_elem_value \<times> sof_state" where
  "snd_sof_bytes_get env be_max scontrol ucontrol s0 =
     (if be_max mod 2 ^ 64 > 512 then (- EINVAL, ucontrol, s0)
      else
        let (ret, s1) = pm_runtime_get_sync env s0 in
        if ret < 0 then (ret, ucontrol, pm_runtime_put_noidle s1)
        else
          let (r, s2) = snd_sof_ipc_set_get_comp_data env scontrol SOF_IPC_COMP_GET_DATA
                          SOF_CTRL_TYPE_DATA_GET (Control_cmd (cmd scontrol)) False s1;
              sz = abi_total_size env (data (control_data s2))
          in if sz > be_max mod 2 ^ 64 then (- EINVAL, ucontrol, pm_idle env s2)
             else (ret,
                   ucontrol\<lparr>bytes_data :=
                     memcpy (bytes_data ucontrol) (data (control_data s2)) (nat sz)\<rparr>,
                   pm_idle env s2))"

definition snd_sof_bytes_put ::
  "sof_env \<Rightarrow> int \<Rightarrow> snd_sof_control \<Rightarrow> snd_ctl_elem_value \<Rightarrow> sof_state \<Rightarrow> int \<times> sof_state" where
  "snd_sof_bytes_put env be_max scontrol ucontrol s0 =
     (let sz = abi_total_size env (data (control_data s0)) in
      if be_max mod 2 ^ 64 > 512 then (- EINVAL, s0)
      else if sz > be_max mod 2 ^ 64 then (- EINVAL, s0)
      else
        let (ret, s1) = pm_runtime_get_sync env s0 in
        if ret < 0 then (ret, pm_runtime_put_noidle s1)
        else
          let s = s1\<lparr>control_data := (control_data s1)
                     \<lparr>data := memcpy (data (control_data s1)) (bytes_data ucontrol) (nat sz)\<rparr>\<rparr>;
              (r, s2) = snd_sof_ipc_set_get_comp_data env scontrol SOF_IPC_COMP_SET_DATA
                          SOF_CTRL_TYPE_DATA_SET (Control_cmd (cmd scontrol)) True s
          in (ret, pm_idle env s2))"

text \<open>
  \<^verbatim>\<open>snd_sof_bytes_ext_put(kcontrol, binary_data, size)\<close>. \<open>binary_data\<close> is the memory
  of the caller: a \<^verbatim>\<open>struct snd_ctl_tlv\<close>, that is \<^verbatim>\<open>numid\<close> at offset 0,
  \<^verbatim>\<open>length\<close> at offset 4 and the bytes \<^verbatim>\<open>tlv[]\<close> from offset 8 on. The argument
  \<open>sz\<close> (\<^verbatim>\<open>size\<close>) is not used by the function.
\<close>

definition snd_sof_bytes_ext_put ::
  "sof_env \<Rightarrow> int \<Rightarrow> snd_sof_control \<Rightarrow> u8 list \<Rightarrow> nat \<Rightarrow> sof_state \<Rightarrow> int \<times> sof_state" where
  "snd_sof_bytes_ext_put env be_max scontrol binary_data sz s0 =
     (let (left, header) = copy_from_user (\<lambda>i. 0) binary_data 0 8 in
      if left \<noteq> 0 then (- EFAULT, s0)
      else
        let header_numid = read32 header 0;
            header_length = read32 header 4
        in if uint header_length > be_max mod 2 ^ 32 then (- EINVAL, s0)
           else if header_numid \<noteq> cmd scontrol then (- EINVAL, s0)
           else
             let (left, d) = copy_from_user (data (control_data s0)) binary_data 8
                               (unat header_length);
                 s = s0\<lparr>control_data := (control_data s0)\<lparr>data := d\<rparr>\<rparr>
             in if left \<noteq> 0 then (- EFAULT, s)
                else if abi_hdr_magic env d \<noteq> SOF_ABI_MAGIC env then (- EINVAL, s)
                else if SOF_ABI_VERSION_INCOMPATIBLE env (SOF_ABI_VERSION env) (abi_hdr_abi env d)
                  then (- EINVAL, s)
                else if abi_total_size env d > be_max mod 2 ^ 64 then (- EINVAL, s)
                else
                  let (ret, s1) = pm_runtime_get_sync env s in
                  if ret < 0 then (ret, pm_runtime_put_noidle s1)
                  else
                    let (r, s2) = snd_sof_ipc_set_get_comp_data env scontrol SOF_IPC_COMP_SET_DATA
                                    SOF_CTRL_TYPE_DATA_SET (Control_cmd (cmd scontrol)) True s1
                    in (ret, pm_idle env s2))"

text \<open>
  \<^verbatim>\<open>snd_sof_bytes_ext_get(kcontrol, binary_data, size)\<close>. \<^verbatim>\<open>size\<close> is decremented
  by the size of the envelope and not read again. \<^verbatim>\<open>data_size\<close> is an \<^verbatim>\<open>int\<close>: the
  \<^verbatim>\<open>size_t\<close> sum is converted to it, it is compared with \<^verbatim>\<open>be->max\<close> as an \<^verbatim>\<open>int\<close>,
  stored in the \<^verbatim>\<open>unsigned int\<close> \<^verbatim>\<open>header.length\<close> and passed to \<^verbatim>\<open>copy_to_user\<close> as an
  \<^verbatim>\<open>unsigned long\<close>. The result carries the memory of the caller after the call.
\<close>

definition snd_sof_bytes_ext_get ::
  "sof_env \<Rightarrow> int \<Rightarrow> snd_sof_control \<Rightarrow> u8 list \<Rightarrow> nat \<Rightarrow> sof_state \<Rightarrow>
   int \<times> u8 list \<times> sof_state" where
  "snd_sof_bytes_ext_get env be_max scontrol binary_data sz s0 =
     (let (ret, s1) = pm_runtime_get_sync env s0 in
      if ret < 0 then (ret, binary_data, pm_runtime_put_noidle s1)
      else
        let sz = (int sz - 8) mod 2 ^ 32;
            d = write32 (data (control_data s1)) (offsetof_magic env) (SOF_ABI_MAGIC env);
            d = write32 d (offsetof_abi env) (SOF_ABI_VERSION env);
            s = s1\<lparr>control_data := (control_data s1)\<lparr>data := d\<rparr>\<rparr>;
            (ret, s2) = snd_sof_ipc_set_get_comp_data env scontrol SOF_IPC_COMP_GET_DATA
                          SOF_CTRL_TYPE_DATA_GET (Control_cmd (cmd scontrol)) False s;
            data_size = to_int32 (abi_total_size env (data (control_data s2)))
        in if data_size > be_max then (- EINVAL, binary_data, pm_idle env s2)
           else
             let header = write32 (write32 (\<lambda>i. 0) 0 (cmd scontrol)) 4 (word_of_int data_size);
                 (left, u1) = copy_to_user binary_data 0 header 8
             in if left \<noteq> 0 then (- EFAULT, u1, pm_idle env s2)
                else
                  let (left, u2) = copy_to_user u1 8 (data (control_data s2))
                                     (nat (data_size mod 2 ^ 64))
                  in ((if left \<noteq> 0 then - EFAULT else ret), u2, pm_idle env s2))"

subsection \<open>The envelope of an extended put\<close>

text \<open>
  What \<^verbatim>\<open>snd_sof_bytes_ext_put\<close> reads from the caller: the \<^verbatim>\<open>struct snd_ctl_tlv\<close>
  header with its two fields, and the content of \<^verbatim>\<open>cdata->data\<close> once the
  \<^verbatim>\<open>header.length\<close> bytes of the blob are copied over the old content \<open>d\<close>.
\<close>

definition tlv_header :: "u8 list \<Rightarrow> mem" where
  "tlv_header binary_data = snd (copy_from_user (\<lambda>i. 0) binary_data 0 8)"

definition tlv_numid :: "u8 list \<Rightarrow> u32" where
  "tlv_numid binary_data = read32 (tlv_header binary_data) 0"

definition tlv_length :: "u8 list \<Rightarrow> u32" where
  "tlv_length binary_data = read32 (tlv_header binary_data) 4"

definition tlv_blob :: "mem \<Rightarrow> u8 list \<Rightarrow> mem" where
  "tlv_blob d binary_data =
     snd (copy_from_user d binary_data 8 (unat (tlv_length binary_data)))"

subsection \<open>The reply of a get-data transaction\<close>

text \<open>
  The state right after the \<^verbatim>\<open>SOF_IPC_COMP_GET_DATA\<close> transaction of
  \<^verbatim>\<open>snd_sof_bytes_get\<close>, and of \<^verbatim>\<open>snd_sof_bytes_ext_get\<close> (which first stores the
  magic number and the ABI version in the cached header), when the resume succeeded.
\<close>

definition bytes_get_reply :: "sof_env \<Rightarrow> snd_sof_control \<Rightarrow> sof_state \<Rightarrow> int \<times> sof_state" where
  "bytes_get_reply env scontrol s =
     snd_sof_ipc_set_get_comp_data env scontrol SOF_IPC_COMP_GET_DATA SOF_CTRL_TYPE_DATA_GET
       (Control_cmd (cmd scontrol)) False (snd (pm_runtime_get_sync env s))"

definition bytes_ext_get_reply :: "sof_env \<Rightarrow> snd_sof_control \<Rightarrow> sof_state \<Rightarrow> int \<times> sof_state" where
  "bytes_ext_get_reply env scontrol s =
     (let s1 = snd (pm_runtime_get_sync env s);
          d = write32 (write32 (data (control_data s1)) (offsetof_magic env) (SOF_ABI_MAGIC env))
                (offsetof_abi env) (SOF_ABI_VERSION env)
      in snd_sof_ipc_set_get_comp_data env scontrol SOF_IPC_COMP_GET_DATA SOF_CTRL_TYPE_DATA_GET
           (Control_cmd (cmd scontrol)) False
           (s1\<lparr>control_data := (control_data s1)\<lparr>data := d\<rparr>\<rparr>))"

text \<open>The payload size the device declared in that reply.\<close>

definition declared_size :: "sof_env \<Rightarrow> int \<times> sof_state \<Rightarrow> int" where
  "declared_size env reply = uint (abi_hdr_size env (data (control_data (snd reply))))"

subsection \<open>The checks made before the resume\<close>

text \<open>
  The inputs on which a bytes handler reaches \<^verbatim>\<open>pm_runtime_get_sync\<close>: the ones that
  pass every check the handler makes before it. For \<^verbatim>\<open>snd_sof_bytes_ext_put\<close> these
  are the two user copies (the 8 bytes of the envelope, then \<^verbatim>\<open>header.length\<close> bytes)
  and the five validations.
\<close>

definition bytes_get_valid :: "int \<Rightarrow> bool" where
  "bytes_get_valid be_max \<longleftrightarrow> be_max mod 2 ^ 64 \<le> 512"

definition bytes_put_valid :: "sof_env \<Rightarrow> int \<Rightarrow> sof_state \<Rightarrow> bool" where
  "bytes_put_valid env be_max s \<longleftrightarrow>
     be_max mod 2 ^ 64 \<le> 512 \<and>
     abi_total_size env (data (control_data s)) \<le> be_max mod 2 ^ 64"

definition bytes_ext_put_valid ::
  "sof_env \<Rightarrow> int \<Rightarrow> snd_sof_control \<Rightarrow> u8 list \<Rightarrow> sof_state \<Rightarrow> bool" where
  "bytes_ext_put_valid env be_max scontrol binary_data s \<longleftrightarrow>
     8 \<le> length binary_data \<and>
     uint (tlv_length binary_data) \<le> be_max mod 2 ^ 32 \<and>
     tlv_numid binary_data = cmd scontrol \<and>
     8 + unat (tlv_length binary_data) \<le> length binary_data \<and>
     abi_hdr_magic env (tlv_blob (data (control_data s)) binary_data) = SOF_ABI_MAGIC env \<and>
     \<not> SOF_ABI_VERSION_INCOMPATIBLE env (SOF_ABI_VERSION env)
         (abi_hdr_abi env (tlv_blob (data (control_data s)) binary_data)) \<and>
     abi_total_size env (tlv_blob (data (control_data s)) binary_data) \<le> be_max mod 2 ^ 64"

subsection \<open>Outcomes of a handler\<close>

text \<open>
  The handler stopped at a failed resume: it returns the code of
  \<^verbatim>\<open>pm_runtime_get_sync\<close>, its only power management calls are that one and the
  \<^verbatim>\<open>pm_runtime_put_noidle\<close> that gives the reference back, and it sent nothing.
\<close>

definition aborted_on_resume :: "sof_env \<Rightarrow> sof_state \<Rightarrow> int \<Rightarrow> sof_state \<Rightarrow> bool" where
  "aborted_on_resume env s ret s' \<longleftrightarrow>
     ret = resume_ret env \<and>
     pm_trace s' = pm_trace s @ [PM_get_sync, PM_put_noidle] \<and>
     usage_count s' = usage_count s \<and>
     ipc_trace s' = ipc_trace s \<and> tx_trace s' = tx_trace s"

text \<open>The handler returned an error before it reached the resume.\<close>

definition rejected_before_resume :: "sof_state \<Rightarrow> int \<Rightarrow> sof_state \<Rightarrow> bool" where
  "rejected_before_resume s ret s' \<longleftrightarrow>
     (ret = - EINVAL \<or> ret = - EFAULT) \<and>
     pm_trace s' = pm_trace s \<and>
     usage_count s' = usage_count s \<and>
     ipc_trace s' = ipc_trace s \<and> tx_trace s' = tx_trace s"

subsection \<open>Concrete inputs\<close>

text \<open>
  A two-channel control whose volume table maps every UI step to itself, a cache that
  holds the value 2 in both channels, and a request for the value 2 in both channels.
\<close>

definition ex_control :: snd_sof_control where
  "ex_control = \<lparr>comp_id = 7, num_channels = 2, cmd = 3, volume_table = [0, 1, 2, 3, 4],
                  vfe_link_name = ''vfe''\<rparr>"

definition ex_cdata :: sof_ipc_ctrl_data where
  "ex_cdata = \<lparr>chanv = (\<lambda>i. \<lparr>channel = word_of_nat i, chan_val = 2\<rparr>), data = (\<lambda>i. 0)\<rparr>"

definition ex_state :: sof_state where
  "ex_state = \<lparr>usage_count = 0, pm_trace = [], ipc_trace = [], tx_trace = [],
                control_data = ex_cdata, widget_list = [], rtd_list = [], dpcm_updates = 0\<rparr>"

definition ex_ucontrol :: snd_ctl_elem_value where
  "ex_ucontrol = \<lparr>integer_value = (\<lambda>i. 2), enumerated_item = (\<lambda>i. 2), bytes_data = (\<lambda>i. 0)\<rparr>"

text \<open>
  Modelled from the spec: the ABI constants and \<^verbatim>\<open>struct sof_abi_hdr\<close>, declared in
  headers that are not among the files modelled here. "BlobPayload header is { magic: u32,
  abi_version: u32, payload_size: u32 }", 12 bytes; "ABI-version incompatibility:
  major version mismatch", the major version being the top byte. The DSP of this
  environment answers every transaction with \<open>code\<close> and leaves the control data
  as it is.
\<close>

definition ex_env :: "int \<Rightarrow> int \<Rightarrow> sof_env" where
  "ex_env resume code =
     \<lparr>resume_ret = resume, idle_ret = 0,
      dsp_comp_data = (\<lambda>call. (code, call_data call)), dsp_tx = (\<lambda>msg. 0),
      SOF_ABI_MAGIC = 0x00464F53, SOF_ABI_VERSION = 0x03000000,
      SOF_ABI_VERSION_INCOMPATIBLE = (\<lambda>a b. drop_bit 24 a \<noteq> drop_bit 24 b),
      sizeof_sof_abi_hdr = 12, offsetof_magic = 0, offsetof_abi = 4, offsetof_size = 8\<rparr>"

text \<open>
  The same environment with a DSP whose reply to a transaction declares the payload
  size \<open>declared\<close> and fills the payload with the byte \<open>0xAA\<close>.
\<close>

definition ex_reply :: "u32 \<Rightarrow> sof_ipc_ctrl_data \<Rightarrow> sof_ipc_ctrl_data" where
  "ex_reply declared cdata =
     cdata\<lparr>data := write32 (\<lambda>i. if i < 12 then data cdata i else 0xAA) 8 declared\<rparr>"

definition ex_env_reply :: "u32 \<Rightarrow> sof_env" where
  "ex_env_reply declared =
     (ex_env 0 0)\<lparr>dsp_comp_data := (\<lambda>call. (0, ex_reply declared (call_data call)))\<rparr>"

text \<open>
  An extended put of 12 bytes for the control 3 whose blob starts with a wrong magic
  number: the envelope (\<open>numid = 3\<close>, \<open>length = 12\<close>), then the blob.
\<close>

definition ex_bad_magic :: "u8 list" where
  "ex_bad_magic = [3, 0, 0, 0, 12, 0, 0, 0, 0xEF, 0xBE, 0xAD, 0xDE, 0, 0, 0, 3, 0, 0, 0, 0]"

text \<open>
  An extended put of 16 bytes for the control 3 that passes every check: the envelope
  (\<open>numid = 3\<close>, \<open>length = 16\<close>), the magic number, the ABI version 3.0.0, the declared
  size 4 and four bytes of payload.
\<close>

definition ex_valid_blob :: "u8 list" where
  "ex_valid_blob = [3, 0, 0, 0, 16, 0, 0, 0, 0x53, 0x4F, 0x46, 0, 0, 0, 0, 3, 4, 0, 0, 0,
                    1, 2, 3, 4]"

section \<open>Properties of the volume codec\<close>

lemma mixer_to_ipc_eval:
  assumes "1 \<le> length T" "length T < 2 ^ 31"
  shows "mixer_to_ipc v T (int (length T)) =
     Some (if length T \<le> unat v then last T else T ! unat v)"
proof -
  have m: "int (length T) mod 2 ^ 32 = int (length T)"
    using assms by simp
  have c: "int (length T) \<le> uint v \<longleftrightarrow> length T \<le> unat v"
    by (metis uint_nat of_nat_le_iff)
  have n: "nat (uint v) = unat v"
    by (rule unat_eq_nat_uint [symmetric])
  have T: "T \<noteq> []" using assms by auto
  show ?thesis
  proof (cases "length T \<le> unat v")
    case True
    then have "mixer_to_ipc v T (int (length T)) = array_read T (int (length T) - 1)"
      unfolding mixer_to_ipc_def m c by simp
    also have "\<dots> = Some (T ! (length T - 1))"
      using assms T by (simp add: array_read_def nat_diff_distrib)
    finally show ?thesis
      using True T by (simp add: last_conv_nth)
  next
    case False
    then have "mixer_to_ipc v T (int (length T)) = array_read T (uint v)"
      unfolding mixer_to_ipc_def m c by simp
    also have "\<dots> = Some (T ! unat v)"
      unfolding array_read_def n using False c by simp
    finally show ?thesis
      using False by simp
  qed
qed

text \<open>The scan started at \<open>i\<close> stops at the first \<open>k \<ge> i\<close> whose entry is at least \<open>v\<close>.\<close>

lemma ipc_to_mixer_loop_hit:
  assumes "v \<le> T ! k" "k < length T" "\<forall>j. i \<le> j \<and> j < k \<longrightarrow> \<not> v \<le> T ! j" "i \<le> k"
  shows "ipc_to_mixer_loop v T (int (length T)) (int i) = Some (word_of_nat k)"
  using assms
proof (induction "k - i" arbitrary: i)
  case 0
  then have "i = k" by simp
  with 0 show ?case by (simp add: array_read_def)
next
  case (Suc d)
  then have lt: "i < k" by simp
  with Suc.prems have nv: "\<not> v \<le> T ! i" by simp
  have "ipc_to_mixer_loop v T (int (length T)) (int (Suc i)) = Some (word_of_nat k)"
    using Suc.hyps(1)[of "Suc i"] Suc.hyps(2) Suc.prems lt by auto
  moreover have "int i + 1 = int (Suc i)" by simp
  ultimately show ?case
    using lt Suc.prems(2) nv
    by (subst ipc_to_mixer_loop.simps)
       (simp add: array_read_def add.commute del: ipc_to_mixer_loop.simps)
qed

text \<open>With no such entry from \<open>i\<close> on, the scan runs to the end and returns \<open>size - 1\<close>.\<close>

lemma ipc_to_mixer_loop_miss:
  assumes "\<forall>j. i \<le> j \<and> j < length T \<longrightarrow> \<not> v \<le> T ! j" "i \<le> length T"
  shows "ipc_to_mixer_loop v T (int (length T)) (int i) =
         Some (word_of_int (int (length T) - 1))"
  using assms
proof (induction "length T - i" arbitrary: i)
  case 0
  then show ?case by simp
next
  case (Suc d)
  then have lt: "i < length T" by simp
  with Suc.prems have nv: "\<not> v \<le> T ! i" by simp
  have "ipc_to_mixer_loop v T (int (length T)) (int (Suc i)) =
        Some (word_of_int (int (length T) - 1))"
    using Suc.hyps(1)[of "Suc i"] Suc.hyps(2) Suc.prems lt by auto
  moreover have "int i + 1 = int (Suc i)" by simp
  ultimately show ?case
    using lt nv
    by (subst ipc_to_mixer_loop.simps)
       (simp add: array_read_def add.commute del: ipc_to_mixer_loop.simps)
qed

lemma unat_index: "k < 2 ^ 31 \<Longrightarrow> unat (word_of_nat k :: u32) = k"
  by (simp add: unat_of_nat)

lemma ipc_to_mixer_eval:
  assumes "1 \<le> length T" "length T < 2 ^ 31"
  shows "\<exists>w. ipc_to_mixer v T (int (length T)) = Some w \<and> unat w < length T \<and>
          (if \<exists>i<length T. v \<le> T ! i
           then v \<le> T ! unat w \<and> (\<forall>j<unat w. T ! j < v)
           else unat w = length T - 1)"
proof (cases "\<exists>i<length T. v \<le> T ! i")
  case True
  define k where "k = (LEAST i. i < length T \<and> v \<le> T ! i)"
  from True obtain i0 where i0: "i0 < length T \<and> v \<le> T ! i0" by blast
  have k: "k < length T \<and> v \<le> T ! k"
    unfolding k_def by (rule LeastI [of _ i0]) (rule i0)
  have least: "\<And>j. j < k \<Longrightarrow> \<not> v \<le> T ! j"
  proof -
    fix j assume "j < k"
    then have "\<not> (j < length T \<and> v \<le> T ! j)"
      unfolding k_def by (rule not_less_Least)
    with \<open>j < k\<close> k show "\<not> v \<le> T ! j" by simp
  qed
  have "ipc_to_mixer_loop v T (int (length T)) (int 0) = Some (word_of_nat k)"
    by (rule ipc_to_mixer_loop_hit) (use k least in auto)
  then have r: "ipc_to_mixer v T (int (length T)) = Some (word_of_nat k)"
    by (simp add: ipc_to_mixer_def)
  have u: "unat (word_of_nat k :: u32) = k"
    using k assms by (intro unat_index) simp
  show ?thesis
    using True r u k least by (auto simp: not_le)
next
  case False
  have "ipc_to_mixer_loop v T (int (length T)) (int 0) =
        Some (word_of_int (int (length T) - 1))"
    by (rule ipc_to_mixer_loop_miss) (use False in auto)
  then have r: "ipc_to_mixer v T (int (length T)) = Some (word_of_nat (length T - 1))"
    using assms by (simp add: ipc_to_mixer_def of_nat_diff)
  have u: "unat (word_of_nat (length T - 1) :: u32) = length T - 1"
    using assms by (intro unat_index) simp
  show ?thesis
    using False r u assms by auto
qed

text \<open>
  Claim C5. For a volume table of size at least 1 (the \<open>size\<close> argument being the
  number of entries, which fits a C \<^verbatim>\<open>int\<close>) and every UI value, \<open>mixer_to_ipc\<close>
  returns the last table entry when the UI value is at least the table size, and the
  entry at that index otherwise.
\<close>

theorem mixer_to_ipc_clamps:
  assumes "1 \<le> length T" "length T < 2 ^ 31"
  shows "mixer_to_ipc v T (int (length T)) =
     Some (if length T \<le> unat v then last T else T ! unat v)"
  using assms by (rule mixer_to_ipc_eval)

theorem mixer_to_ipc_clamps_witness:
  "mixer_to_ipc 5 [0, 10, 10, 50, 100] 5 = Some 100 \<and>
   mixer_to_ipc 1 [0, 10, 10, 50, 100] 5 = Some 10"
  using mixer_to_ipc_clamps [of "[0, 10, 10, 50, 100]" 5]
        mixer_to_ipc_clamps [of "[0, 10, 10, 50, 100]" 1]
  by simp

text \<open>
  Claim C6. For a volume table of size at least 1 and every device value,
  \<open>ipc_to_mixer\<close> returns the lowest index whose entry is at least the device value,
  and the table size minus 1 when no entry qualifies. On the table
  \<open>[0, 10, 10, 50, 100]\<close> the device value 10 maps to index 1, not 2.
\<close>

theorem ipc_to_mixer_first_match:
  assumes "1 \<le> length T" "length T < 2 ^ 31"
  shows "(\<exists>w. ipc_to_mixer v T (int (length T)) = Some w \<and> unat w < length T \<and>
          (if \<exists>i<length T. v \<le> T ! i
           then v \<le> T ! unat w \<and> (\<forall>j<unat w. T ! j < v)
           else unat w = length T - 1)) \<and>
         ipc_to_mixer 10 [0, 10, 10, 50, 100] 5 = Some 1"
proof
  show "ipc_to_mixer 10 [0, 10, 10, 50, 100] 5 = Some 1"
    by (simp add: ipc_to_mixer_def array_read_def)
  show "\<exists>w. ipc_to_mixer v T (int (length T)) = Some w \<and> unat w < length T \<and>
          (if \<exists>i<length T. v \<le> T ! i
           then v \<le> T ! unat w \<and> (\<forall>j<unat w. T ! j < v)
           else unat w = length T - 1)"
    using assms by (rule ipc_to_mixer_eval)
qed

theorem ipc_to_mixer_first_match_witness:
  "\<exists>w. ipc_to_mixer 1000 [0, 10, 10, 50, 100] (int (length [0, 10, 10, 50, 100 :: u32]))
        = Some w \<and> unat w < length [0, 10, 10, 50, 100 :: u32]"
proof -
  have l: "1 \<le> length [0, 10, 10, 50, 100 :: u32]" by simp
  have b: "length [0, 10, 10, 50, 100 :: u32] < 2 ^ 31" by simp
  from ipc_to_mixer_first_match [OF l b, of 1000] show ?thesis by blast
qed

text \<open>
  Claim C7. For a non-decreasing table \<open>T\<close> and a UI value below its size, mapping to
  the device value with \<open>mixer_to_ipc\<close>, back with \<open>ipc_to_mixer\<close>, and indexing the
  table again gives the same device value. The recovered index need not be the UI
  value: on \<open>[0, 10, 10, 50, 100]\<close> the UI value 2 comes back as index 1.
\<close>

theorem quantization_idempotent:
  assumes "sorted T" "unat ui < length T" "length T < 2 ^ 31"
  shows "(\<exists>d w. mixer_to_ipc ui T (int (length T)) = Some d \<and>
               ipc_to_mixer d T (int (length T)) = Some w \<and>
               unat w < length T \<and> T ! unat w = d) \<and>
         (mixer_to_ipc 2 [0, 10, 10, 50, 100] 5 = Some 10 \<and>
          ipc_to_mixer 10 [0, 10, 10, 50, 100] 5 = Some 1)"
proof
  show "mixer_to_ipc 2 [0, 10, 10, 50, 100] 5 = Some 10 \<and>
        ipc_to_mixer 10 [0, 10, 10, 50, 100] 5 = Some 1"
    by (simp add: mixer_to_ipc_def ipc_to_mixer_def array_read_def)
  have len: "1 \<le> length T" using assms by simp
  have d: "mixer_to_ipc ui T (int (length T)) = Some (T ! unat ui)"
    using mixer_to_ipc_eval [OF len assms(3), of ui] assms(2) by simp
  have ex: "\<exists>i<length T. T ! unat ui \<le> T ! i"
    using assms(2) by blast
  from ipc_to_mixer_eval [OF len assms(3), of "T ! unat ui"] ex
  obtain w where w: "ipc_to_mixer (T ! unat ui) T (int (length T)) = Some w"
    "unat w < length T" "T ! unat ui \<le> T ! unat w" "\<forall>j<unat w. T ! j < T ! unat ui"
    by auto
  have "unat w \<le> unat ui"
  proof (rule ccontr)
    assume "\<not> unat w \<le> unat ui"
    then have "unat ui < unat w" by simp
    with w(4) have "T ! unat ui < T ! unat ui" by blast
    then show False by simp
  qed
  then have "T ! unat w \<le> T ! unat ui"
    using assms(1,2) by (simp add: sorted_nth_mono)
  with w(3) have "T ! unat w = T ! unat ui" by simp
  with d w(1,2)
  show "\<exists>d w. mixer_to_ipc ui T (int (length T)) = Some d \<and>
               ipc_to_mixer d T (int (length T)) = Some w \<and>
               unat w < length T \<and> T ! unat w = d"
    by simp
qed

theorem quantization_idempotent_witness:
  "\<exists>d w. mixer_to_ipc 2 [0, 10, 10, 50, 100] (int (length [0, 10, 10, 50, 100 :: u32])) = Some d \<and>
         ipc_to_mixer d [0, 10, 10, 50, 100] (int (length [0, 10, 10, 50, 100 :: u32])) = Some w \<and>
         [0, 10, 10, 50, 100] ! unat w = d"
proof -
  have s: "sorted [0, 10, 10, 50, 100 :: u32]" by simp
  have l: "unat (2 :: u32) < length [0, 10, 10, 50, 100 :: u32]" by simp
  have b: "length [0, 10, 10, 50, 100 :: u32] < 2 ^ 31" by simp
  from quantization_idempotent [OF s l b] show ?thesis by blast
qed

section \<open>Properties of the block I/O\<close>






lemma to_int32_id: "- (2 ^ 31) \<le> x \<Longrightarrow> x < 2 ^ 31 \<Longrightarrow> to_int32 x = x"
  unfolding to_int32_def by (simp add: sint_sbintrunc' signed_take_bit_int_eq_self)





section \<open>Properties of the handlers\<close>

lemmas pm_defs = pm_runtime_get_sync_def pm_runtime_put_noidle_def pm_runtime_mark_last_busy_def
  pm_runtime_put_autosuspend_def pm_idle_def


subsection \<open>A failed resume\<close>

lemma volume_get_resume_fail:
  "resume_ret env < 0 \<Longrightarrow>
   \<exists>s'. snd_sof_volume_get env sm_max scontrol ucontrol s = Some (resume_ret env, ucontrol, s') \<and>
        aborted_on_resume env s (resume_ret env) s'"
  by (simp add: snd_sof_volume_get_def pm_defs aborted_on_resume_def)

lemma volume_put_resume_fail:
  "resume_ret env < 0 \<Longrightarrow>
   \<exists>s'. snd_sof_volume_put env sm_max scontrol ucontrol s = Some (resume_ret env, s') \<and>
        aborted_on_resume env s (resume_ret env) s'"
  by (simp add: snd_sof_volume_put_def pm_defs aborted_on_resume_def)

lemma switch_get_resume_fail:
  "resume_ret env < 0 \<Longrightarrow>
   \<exists>s'. snd_sof_switch_get env scontrol ucontrol s = (resume_ret env, ucontrol, s') \<and>
        aborted_on_resume env s (resume_ret env) s'"
  by (simp add: snd_sof_switch_get_def pm_defs aborted_on_resume_def)

lemma switch_put_resume_fail:
  "resume_ret env < 0 \<Longrightarrow>
   \<exists>s'. snd_sof_switch_put env scontrol ucontrol s = (resume_ret env, s') \<and>
        aborted_on_resume env s (resume_ret env) s'"
  by (simp add: snd_sof_switch_put_def pm_defs aborted_on_resume_def)

lemma enum_get_resume_fail:
  "resume_ret env < 0 \<Longrightarrow>
   \<exists>s'. snd_sof_enum_get env scontrol ucontrol s = (resume_ret env, ucontrol, s') \<and>
        aborted_on_resume env s (resume_ret env) s'"
  by (simp add: snd_sof_enum_get_def pm_defs aborted_on_resume_def)

lemma enum_put_resume_fail:
  "resume_ret env < 0 \<Longrightarrow>
   \<exists>s'. snd_sof_enum_put env scontrol ucontrol s = (resume_ret env, s') \<and>
        aborted_on_resume env s (resume_ret env) s'"
  by (simp add: snd_sof_enum_put_def pm_defs aborted_on_resume_def)

lemma bytes_get_resume_fail:
  "resume_ret env < 0 \<Longrightarrow>
   \<exists>ret s'. snd_sof_bytes_get env be_max scontrol ucontrol s = (ret, ucontrol, s') \<and>
        (if bytes_get_valid be_max then aborted_on_resume env s ret s'
         else ret = - EINVAL \<and> rejected_before_resume s ret s')"
  by (simp add: snd_sof_bytes_get_def pm_defs aborted_on_resume_def rejected_before_resume_def
        bytes_get_valid_def not_less)

lemma bytes_put_resume_fail:
  "resume_ret env < 0 \<Longrightarrow>
   \<exists>ret s'. snd_sof_bytes_put env be_max scontrol ucontrol s = (ret, s') \<and>
        (if bytes_put_valid env be_max s then aborted_on_resume env s ret s'
         else ret = - EINVAL \<and> rejected_before_resume s ret s')"
  by (auto simp: snd_sof_bytes_put_def pm_defs aborted_on_resume_def rejected_before_resume_def
        bytes_put_valid_def Let_def not_less)

lemma copy_from_user_fst:
  "from \<le> length umem \<Longrightarrow>
   fst (copy_from_user to umem from n) = 0 \<longleftrightarrow> from + n \<le> length umem"
  by (auto simp: copy_from_user_def Let_def min_def)

lemma bytes_ext_put_resume_fail:
  assumes "resume_ret env < 0"
  shows "\<exists>ret s'. snd_sof_bytes_ext_put env be_max scontrol binary_data sz s = (ret, s') \<and>
        (if bytes_ext_put_valid env be_max scontrol binary_data s
         then aborted_on_resume env s ret s'
         else rejected_before_resume s ret s')"
proof (cases "8 \<le> length binary_data")
  case False
  then have "fst (copy_from_user (\<lambda>i. 0) binary_data 0 8) \<noteq> 0"
    by (simp add: copy_from_user_fst)
  then have "snd_sof_bytes_ext_put env be_max scontrol binary_data sz s = (- EFAULT, s)"
    by (simp add: snd_sof_bytes_ext_put_def Let_def case_prod_beta)
  with False show ?thesis
    by (simp add: bytes_ext_put_valid_def rejected_before_resume_def)
next
  case True
  then have h: "fst (copy_from_user (\<lambda>i. 0) binary_data 0 8) = 0"
    by (simp add: copy_from_user_fst)
  have b: "fst (copy_from_user (data (control_data s)) binary_data 8
                 (unat (tlv_length binary_data))) = 0 \<longleftrightarrow>
           8 + unat (tlv_length binary_data) \<le> length binary_data"
    using True by (rule copy_from_user_fst)
  show ?thesis
  proof (cases "8 + unat (tlv_length binary_data) \<le> length binary_data")
    case readable: True
    with b have c: "fst (copy_from_user (data (control_data s)) binary_data 8
                 (unat (tlv_length binary_data))) = 0"
      by simp
    show ?thesis
      using assms True h c readable
      unfolding snd_sof_bytes_ext_put_def bytes_ext_put_valid_def tlv_blob_def tlv_length_def
        tlv_numid_def tlv_header_def
      by (simp add: Let_def case_prod_beta pm_defs aborted_on_resume_def
            rejected_before_resume_def not_less)
  next
    case unreadable: False
    with b have c: "0 < fst (copy_from_user (data (control_data s)) binary_data 8
                 (unat (tlv_length binary_data)))"
      by simp
    show ?thesis
      using assms True h c unreadable
      unfolding snd_sof_bytes_ext_put_def bytes_ext_put_valid_def tlv_blob_def tlv_length_def
        tlv_numid_def tlv_header_def
      by (simp add: Let_def case_prod_beta pm_defs aborted_on_resume_def
            rejected_before_resume_def not_less)
  qed
qed

lemma bytes_ext_get_resume_fail:
  "resume_ret env < 0 \<Longrightarrow>
   \<exists>s'. snd_sof_bytes_ext_get env be_max scontrol binary_data sz s = (resume_ret env, binary_data, s') \<and>
        aborted_on_resume env s (resume_ret env) s'"
  by (simp add: snd_sof_bytes_ext_get_def pm_defs aborted_on_resume_def)

text \<open>
  Claim C8. When \<^verbatim>\<open>pm_runtime_get_sync\<close> fails, every get and put handler returns
  that error unchanged, makes no IPC call, and gives the reference back with
  \<^verbatim>\<open>pm_runtime_put_noidle\<close>, so that the usage count is what it was. The three
  handlers that validate before they resume (\<^verbatim>\<open>snd_sof_bytes_get\<close>,
  \<^verbatim>\<open>snd_sof_bytes_put\<close>, \<^verbatim>\<open>snd_sof_bytes_ext_put\<close>) do so on every input that passes
  their checks; on an input that fails a check they never call the resume, and
  return the error of the check with no power management call and no IPC call.
\<close>

theorem resume_failure_aborts:
  assumes "resume_ret env < 0"
  shows "(\<exists>s'. snd_sof_volume_get env sm_max scontrol ucontrol s =
                 Some (resume_ret env, ucontrol, s') \<and>
               aborted_on_resume env s (resume_ret env) s') \<and>
         (\<exists>s'. snd_sof_volume_put env sm_max scontrol ucontrol s = Some (resume_ret env, s') \<and>
               aborted_on_resume env s (resume_ret env) s') \<and>
         (\<exists>s'. snd_sof_switch_get env scontrol ucontrol s = (resume_ret env, ucontrol, s') \<and>
               aborted_on_resume env s (resume_ret env) s') \<and>
         (\<exists>s'. snd_sof_switch_put env scontrol ucontrol s = (resume_ret env, s') \<and>
               aborted_on_resume env s (resume_ret env) s') \<and>
         (\<exists>s'. snd_sof_enum_get env scontrol ucontrol s = (resume_ret env, ucontrol, s') \<and>
               aborted_on_resume env s (resume_ret env) s') \<and>
         (\<exists>s'. snd_sof_enum_put env scontrol ucontrol s = (resume_ret env, s') \<and>
               aborted_on_resume env s (resume_ret env) s') \<and>
         (\<exists>ret s'. snd_sof_bytes_get env be_max scontrol ucontrol s = (ret, ucontrol, s') \<and>
               (if bytes_get_valid be_max then aborted_on_resume env s ret s'
                else ret = - EINVAL \<and> rejected_before_resume s ret s')) \<and>
         (\<exists>ret s'. snd_sof_bytes_put env be_max scontrol ucontrol s = (ret, s') \<and>
               (if bytes_put_valid env be_max s then aborted_on_resume env s ret s'
                else ret = - EINVAL \<and> rejected_before_resume s ret s')) \<and>
         (\<exists>ret s'. snd_sof_bytes_ext_put env be_max scontrol binary_data sz s = (ret, s') \<and>
               (if bytes_ext_put_valid env be_max scontrol binary_data s
                then aborted_on_resume env s ret s'
                else rejected_before_resume s ret s')) \<and>
         (\<exists>s'. snd_sof_bytes_ext_get env be_max scontrol binary_data sz s =
                 (resume_ret env, binary_data, s') \<and>
               aborted_on_resume env s (resume_ret env) s')"
  using assms
  by (intro conjI volume_get_resume_fail volume_put_resume_fail switch_get_resume_fail
        switch_put_resume_fail enum_get_resume_fail enum_put_resume_fail bytes_get_resume_fail
        bytes_put_resume_fail bytes_ext_put_resume_fail bytes_ext_get_resume_fail)

lemma ex_valid_blob_valid:
  "bytes_ext_put_valid (ex_env (- 13) 0) 64 ex_control ex_valid_blob ex_state"
  by code_simp

theorem resume_failure_aborts_witness:
  "(\<exists>s'. snd_sof_switch_put (ex_env (- 13) 0) ex_control ex_ucontrol ex_state = (- 13, s') \<and>
        pm_trace s' = [PM_get_sync, PM_put_noidle] \<and> usage_count s' = 0 \<and> ipc_trace s' = []) \<and>
   (\<exists>s'. snd_sof_bytes_ext_put (ex_env (- 13) 0) 64 ex_control ex_valid_blob 24 ex_state
          = (- 13, s') \<and>
        pm_trace s' = [PM_get_sync, PM_put_noidle] \<and> usage_count s' = 0 \<and> ipc_trace s' = [])"
proof -
  have h: "resume_ret (ex_env (- 13) 0) < 0" by (simp add: ex_env_def)
  note T = resume_failure_aborts [OF h, of 4 ex_control ex_ucontrol ex_state 64 ex_valid_blob 24]
  note c2 = conjunct2
  from T [THEN c2, THEN c2, THEN c2, THEN conjunct1]
  obtain s1 where s1:
    "snd_sof_switch_put (ex_env (- 13) 0) ex_control ex_ucontrol ex_state =
       (resume_ret (ex_env (- 13) 0), s1)"
    "aborted_on_resume (ex_env (- 13) 0) ex_state (resume_ret (ex_env (- 13) 0)) s1"
    by blast
  from T [THEN c2, THEN c2, THEN c2, THEN c2, THEN c2, THEN c2, THEN c2, THEN c2, THEN conjunct1]
  obtain ret s2 where s2:
    "snd_sof_bytes_ext_put (ex_env (- 13) 0) 64 ex_control ex_valid_blob 24 ex_state = (ret, s2)"
    "aborted_on_resume (ex_env (- 13) 0) ex_state ret s2"
    using ex_valid_blob_valid by auto
  from s1 have a: "\<exists>s'. snd_sof_switch_put (ex_env (- 13) 0) ex_control ex_ucontrol ex_state
        = (- 13, s') \<and>
        pm_trace s' = [PM_get_sync, PM_put_noidle] \<and> usage_count s' = 0 \<and> ipc_trace s' = []"
    by (simp add: aborted_on_resume_def ex_env_def ex_state_def)
  from s2 have b: "\<exists>s'. snd_sof_bytes_ext_put (ex_env (- 13) 0) 64 ex_control ex_valid_blob 24
        ex_state = (- 13, s') \<and>
        pm_trace s' = [PM_get_sync, PM_put_noidle] \<and> usage_count s' = 0 \<and> ipc_trace s' = []"
    by (simp add: aborted_on_resume_def ex_env_def ex_state_def)
  from a b show ?thesis by (rule conjI)
qed

subsection \<open>Validation in the extended put\<close>

lemma copy_from_user_ok:
  "from + n \<le> length umem \<Longrightarrow> fst (copy_from_user to umem from n) = 0"
  by (simp add: copy_from_user_def Let_def)

lemma ext_put_envelope:
  assumes "8 \<le> length binary_data"
  shows "snd_sof_bytes_ext_put env be_max scontrol binary_data sz s =
     (if uint (tlv_length binary_data) > be_max mod 2 ^ 32 then (- EINVAL, s)
      else if tlv_numid binary_data \<noteq> cmd scontrol then (- EINVAL, s)
      else
        let d = tlv_blob (data (control_data s)) binary_data;
            s1 = s\<lparr>control_data := (control_data s)\<lparr>data := d\<rparr>\<rparr>
        in if fst (copy_from_user (data (control_data s)) binary_data 8
                     (unat (tlv_length binary_data))) \<noteq> 0 then (- EFAULT, s1)
           else if abi_hdr_magic env d \<noteq> SOF_ABI_MAGIC env then (- EINVAL, s1)
           else if SOF_ABI_VERSION_INCOMPATIBLE env (SOF_ABI_VERSION env) (abi_hdr_abi env d)
             then (- EINVAL, s1)
           else if abi_total_size env d > be_max mod 2 ^ 64 then (- EINVAL, s1)
           else
             if resume_ret env < 0 then (resume_ret env, pm_runtime_put_noidle (snd (pm_runtime_get_sync env s1)))
             else
               (resume_ret env, pm_idle env (snd (snd_sof_ipc_set_get_comp_data env scontrol SOF_IPC_COMP_SET_DATA
                               SOF_CTRL_TYPE_DATA_SET (Control_cmd (cmd scontrol)) True (snd (pm_runtime_get_sync env s1))))))"
proof -
  have "fst (copy_from_user (\<lambda>i. 0) binary_data 0 8) = 0"
    using assms by (simp add: copy_from_user_ok)
  then show ?thesis
    unfolding snd_sof_bytes_ext_put_def tlv_blob_def tlv_length_def tlv_numid_def tlv_header_def
      pm_runtime_get_sync_def
    by (simp add: Let_def case_prod_beta)
qed

lemma ext_put_envelope_rejected:
  assumes "8 \<le> length binary_data"
    and "uint (tlv_length binary_data) > be_max mod 2 ^ 32 \<or> tlv_numid binary_data \<noteq> cmd scontrol"
  shows "snd_sof_bytes_ext_put env be_max scontrol binary_data sz s = (- EINVAL, s)"
  using assms(2) by (auto simp: ext_put_envelope [OF assms(1)])

lemma ext_put_blob_rejected:
  assumes "8 + unat (tlv_length binary_data) \<le> length binary_data"
    and "\<not> uint (tlv_length binary_data) > be_max mod 2 ^ 32"
    and "tlv_numid binary_data = cmd scontrol"
    and "abi_hdr_magic env (tlv_blob (data (control_data s)) binary_data) \<noteq> SOF_ABI_MAGIC env \<or>
         SOF_ABI_VERSION_INCOMPATIBLE env (SOF_ABI_VERSION env)
           (abi_hdr_abi env (tlv_blob (data (control_data s)) binary_data)) \<or>
         abi_total_size env (tlv_blob (data (control_data s)) binary_data) > be_max mod 2 ^ 64"
  shows "snd_sof_bytes_ext_put env be_max scontrol binary_data sz s =
         (- EINVAL, s\<lparr>control_data := (control_data s)
                       \<lparr>data := tlv_blob (data (control_data s)) binary_data\<rparr>\<rparr>)"
proof -
  have 8: "8 \<le> length binary_data" using assms(1) by simp
  have c: "fst (copy_from_user (data (control_data s)) binary_data 8
                     (unat (tlv_length binary_data))) = 0"
    using assms(1) by (simp add: copy_from_user_ok)
  show ?thesis
    using assms(2,3,4) c by (auto simp: ext_put_envelope [OF 8] Let_def)
qed

lemma ext_put_blob_unreadable:
  assumes "8 \<le> length binary_data"
    and "\<not> 8 + unat (tlv_length binary_data) \<le> length binary_data"
    and "\<not> uint (tlv_length binary_data) > be_max mod 2 ^ 32"
    and "tlv_numid binary_data = cmd scontrol"
  shows "snd_sof_bytes_ext_put env be_max scontrol binary_data sz s =
         (- EFAULT, s\<lparr>control_data := (control_data s)
                       \<lparr>data := tlv_blob (data (control_data s)) binary_data\<rparr>\<rparr>)"
proof -
  have c: "fst (copy_from_user (data (control_data s)) binary_data 8
                     (unat (tlv_length binary_data))) \<noteq> 0"
    using assms(1,2) by (simp add: copy_from_user_fst)
  show ?thesis
    using assms(3,4) c by (simp add: ext_put_envelope [OF assms(1)] Let_def)
qed

lemma tlv_blob_bytes:
  assumes "8 + unat (tlv_length binary_data) \<le> length binary_data"
  shows "tlv_blob d binary_data i =
         (if i < unat (tlv_length binary_data) then binary_data ! (8 + i) else d i)"
  using assms by (simp add: tlv_blob_def copy_from_user_def Let_def)


text \<open>
  Claim C3, as amended. For an extended put whose 8-byte envelope can be read:
  \<^item> when the declared length exceeds the maximum or the envelope id is not the
    control's, the handler returns \<^verbatim>\<open>-EINVAL\<close> and the state is the one it started
    from (no transaction, no power management call, the cached buffer untouched);
  \<^item> when these two checks pass and all \<^verbatim>\<open>header.length\<close> bytes of the blob can be
    read, and the magic is wrong, the ABI version is incompatible or the declared size
    plus the header exceeds the maximum, it returns \<^verbatim>\<open>-EINVAL\<close> and the state differs
    from the initial one in the cached buffer only, which by then holds the
    \<^verbatim>\<open>header.length\<close> bytes of the caller's blob;
  \<^item> when these two checks pass and the blob cannot be read in full, it returns
    \<^verbatim>\<open>-EFAULT\<close>, whatever the magic, and again the state differs from the initial one
    in the cached buffer only, which holds what the copy left there.
\<close>

theorem bytes_ext_put_validation:
  assumes "8 \<le> length binary_data"
  shows "(uint (tlv_length binary_data) > be_max mod 2 ^ 32 \<or>
          tlv_numid binary_data \<noteq> cmd scontrol \<longrightarrow>
            snd_sof_bytes_ext_put env be_max scontrol binary_data sz s = (- EINVAL, s)) \<and>
         (8 + unat (tlv_length binary_data) \<le> length binary_data \<and>
          \<not> uint (tlv_length binary_data) > be_max mod 2 ^ 32 \<and>
          tlv_numid binary_data = cmd scontrol \<and>
          (abi_hdr_magic env (tlv_blob (data (control_data s)) binary_data) \<noteq> SOF_ABI_MAGIC env \<or>
           SOF_ABI_VERSION_INCOMPATIBLE env (SOF_ABI_VERSION env)
             (abi_hdr_abi env (tlv_blob (data (control_data s)) binary_data)) \<or>
           abi_total_size env (tlv_blob (data (control_data s)) binary_data) > be_max mod 2 ^ 64) \<longrightarrow>
            snd_sof_bytes_ext_put env be_max scontrol binary_data sz s =
              (- EINVAL, s\<lparr>control_data := (control_data s)
                            \<lparr>data := tlv_blob (data (control_data s)) binary_data\<rparr>\<rparr>)) \<and>
         (\<not> 8 + unat (tlv_length binary_data) \<le> length binary_data \<and>
          \<not> uint (tlv_length binary_data) > be_max mod 2 ^ 32 \<and>
          tlv_numid binary_data = cmd scontrol \<longrightarrow>
            snd_sof_bytes_ext_put env be_max scontrol binary_data sz s =
              (- EFAULT, s\<lparr>control_data := (control_data s)
                            \<lparr>data := tlv_blob (data (control_data s)) binary_data\<rparr>\<rparr>))"
proof (intro conjI impI)
  assume "uint (tlv_length binary_data) > be_max mod 2 ^ 32 \<or>
          tlv_numid binary_data \<noteq> cmd scontrol"
  with assms show "snd_sof_bytes_ext_put env be_max scontrol binary_data sz s = (- EINVAL, s)"
    by (rule ext_put_envelope_rejected)
next
  assume a: "8 + unat (tlv_length binary_data) \<le> length binary_data \<and>
          \<not> uint (tlv_length binary_data) > be_max mod 2 ^ 32 \<and>
          tlv_numid binary_data = cmd scontrol \<and>
          (abi_hdr_magic env (tlv_blob (data (control_data s)) binary_data) \<noteq> SOF_ABI_MAGIC env \<or>
           SOF_ABI_VERSION_INCOMPATIBLE env (SOF_ABI_VERSION env)
             (abi_hdr_abi env (tlv_blob (data (control_data s)) binary_data)) \<or>
           abi_total_size env (tlv_blob (data (control_data s)) binary_data) > be_max mod 2 ^ 64)"
  show "snd_sof_bytes_ext_put env be_max scontrol binary_data sz s =
              (- EINVAL, s\<lparr>control_data := (control_data s)
                            \<lparr>data := tlv_blob (data (control_data s)) binary_data\<rparr>\<rparr>)"
    by (rule ext_put_blob_rejected) (use a in blast)+
next
  assume a: "\<not> 8 + unat (tlv_length binary_data) \<le> length binary_data \<and>
          \<not> uint (tlv_length binary_data) > be_max mod 2 ^ 32 \<and>
          tlv_numid binary_data = cmd scontrol"
  show "snd_sof_bytes_ext_put env be_max scontrol binary_data sz s =
              (- EFAULT, s\<lparr>control_data := (control_data s)
                            \<lparr>data := tlv_blob (data (control_data s)) binary_data\<rparr>\<rparr>)"
    using assms by (rule ext_put_blob_unreadable) (use a in blast)+
qed

lemma ex_bad_magic_fields:
  "length ex_bad_magic = 20" "tlv_numid ex_bad_magic = 3" "tlv_length ex_bad_magic = 12"
  by code_simp+

lemma ex_bad_magic_magic:
  "abi_hdr_magic (ex_env 0 0) (tlv_blob (data (control_data ex_state)) ex_bad_magic) = 0xDEADBEEF"
  by code_simp

lemma ex_truncated_fields:
  "length (take 12 ex_bad_magic) = 12" "tlv_numid (take 12 ex_bad_magic) = 3"
  "tlv_length (take 12 ex_bad_magic) = 12"
  by code_simp+

theorem bytes_ext_put_validation_witness:
  "snd_sof_bytes_ext_put (ex_env 0 0) 64 (ex_control\<lparr>cmd := 4\<rparr>) ex_bad_magic 20 ex_state
     = (- EINVAL, ex_state) \<and>
   snd_sof_bytes_ext_put (ex_env 0 0) 64 ex_control ex_bad_magic 20 ex_state
     = (- EINVAL, ex_state\<lparr>control_data := (control_data ex_state)
                 \<lparr>data := tlv_blob (data (control_data ex_state)) ex_bad_magic\<rparr>\<rparr>) \<and>
   snd_sof_bytes_ext_put (ex_env 0 0) 64 ex_control (take 12 ex_bad_magic) 12 ex_state
     = (- EFAULT, ex_state\<lparr>control_data := (control_data ex_state)
                 \<lparr>data := tlv_blob (data (control_data ex_state)) (take 12 ex_bad_magic)\<rparr>\<rparr>)"
proof -
  have l: "8 \<le> length ex_bad_magic" by (simp add: ex_bad_magic_fields)
  have l': "8 \<le> length (take 12 ex_bad_magic)" by (simp add: ex_bad_magic_fields)
  have c: "cmd ex_control = 3" "SOF_ABI_MAGIC (ex_env 0 0) = 0x00464F53"
    by (simp_all add: ex_control_def ex_env_def)
  have 1: "snd_sof_bytes_ext_put (ex_env 0 0) 64 (ex_control\<lparr>cmd := 4\<rparr>) ex_bad_magic 20 ex_state
     = (- EINVAL, ex_state)"
    using bytes_ext_put_validation [OF l, of 64 "ex_control\<lparr>cmd := 4\<rparr>" "ex_env 0 0" 20 ex_state]
    by (simp add: ex_bad_magic_fields)
  have 2: "snd_sof_bytes_ext_put (ex_env 0 0) 64 ex_control ex_bad_magic 20 ex_state
     = (- EINVAL, ex_state\<lparr>control_data := (control_data ex_state)
                 \<lparr>data := tlv_blob (data (control_data ex_state)) ex_bad_magic\<rparr>\<rparr>)"
    using bytes_ext_put_validation [OF l, of 64 ex_control "ex_env 0 0" 20 ex_state]
    by (simp add: ex_bad_magic_fields ex_bad_magic_magic c)
  have 3: "snd_sof_bytes_ext_put (ex_env 0 0) 64 ex_control (take 12 ex_bad_magic) 12 ex_state
     = (- EFAULT, ex_state\<lparr>control_data := (control_data ex_state)
                 \<lparr>data := tlv_blob (data (control_data ex_state)) (take 12 ex_bad_magic)\<rparr>\<rparr>)"
    using bytes_ext_put_validation [OF l', of 64 ex_control "ex_env 0 0" 12 ex_state]
    by (simp add: ex_truncated_fields c)
  from 1 2 3 show ?thesis by (intro conjI)
qed

text \<open>
  Claim C3 as stated fails: a blob with a wrong magic number is rejected, but it has
  been copied into \<^verbatim>\<open>cdata->data\<close> before the magic number is looked at.
\<close>

theorem bytes_ext_put_bad_magic_mutates_cache:
  "abi_hdr_magic (ex_env 0 0) (tlv_blob (data (control_data ex_state)) ex_bad_magic)
     \<noteq> SOF_ABI_MAGIC (ex_env 0 0) \<and>
   fst (snd_sof_bytes_ext_put (ex_env 0 0) 64 ex_control ex_bad_magic 20 ex_state) = - EINVAL \<and>
   data (control_data ex_state) 0 = 0 \<and>
   data (control_data (snd (snd_sof_bytes_ext_put (ex_env 0 0) 64 ex_control ex_bad_magic 20 ex_state))) 0
     = 0xEF"
  by code_simp

subsection \<open>The size check of the bytes get handlers\<close>

lemma bytes_get_unfold:
  assumes "0 \<le> resume_ret env" "\<not> be_max mod 2 ^ 64 > 512"
  shows "snd_sof_bytes_get env be_max scontrol ucontrol s =
     (let reply = bytes_get_reply env scontrol s;
          total = (declared_size env reply + int (sizeof_sof_abi_hdr env)) mod 2 ^ 64
      in if total > be_max mod 2 ^ 64 then (- EINVAL, ucontrol, pm_idle env (snd reply))
         else (resume_ret env,
               ucontrol\<lparr>bytes_data :=
                 memcpy (bytes_data ucontrol) (data (control_data (snd reply))) (nat total)\<rparr>,
               pm_idle env (snd reply)))"
  using assms
  unfolding snd_sof_bytes_get_def bytes_get_reply_def declared_size_def abi_total_size_def
    pm_runtime_get_sync_def
  by (simp add: Let_def case_prod_beta)

lemma bytes_ext_get_unfold:
  assumes "0 \<le> resume_ret env"
  shows "snd_sof_bytes_ext_get env be_max scontrol binary_data sz s =
     (let reply = bytes_ext_get_reply env scontrol s;
          data_size = to_int32 ((declared_size env reply + int (sizeof_sof_abi_hdr env)) mod 2 ^ 64)
      in if data_size > be_max then (- EINVAL, binary_data, pm_idle env (snd reply))
         else
           let header = write32 (write32 (\<lambda>i. 0) 0 (cmd scontrol)) 4 (word_of_int data_size);
               c1 = copy_to_user binary_data 0 header 8
           in if fst c1 \<noteq> 0 then (- EFAULT, snd c1, pm_idle env (snd reply))
              else
                let c2 = copy_to_user (snd c1) 8 (data (control_data (snd reply)))
                           (nat (data_size mod 2 ^ 64))
                in ((if fst c2 \<noteq> 0 then - EFAULT else fst reply), snd c2,
                    pm_idle env (snd reply)))"
  using assms
  unfolding snd_sof_bytes_ext_get_def bytes_ext_get_reply_def declared_size_def abi_total_size_def
    pm_runtime_get_sync_def
  by (simp add: Let_def case_prod_beta)

lemma bytes_get_rejects_oversize:
  assumes "0 \<le> resume_ret env" "0 \<le> be_max" "be_max \<le> 512"
    and "declared_size env (bytes_get_reply env scontrol s) + int (sizeof_sof_abi_hdr env) > be_max"
    and "int (sizeof_sof_abi_hdr env) < 2 ^ 32"
  shows "snd_sof_bytes_get env be_max scontrol ucontrol s =
           (- EINVAL, ucontrol, pm_idle env (snd (bytes_get_reply env scontrol s)))"
proof -
  have m: "be_max mod 2 ^ 64 = be_max" using assms(2,3) by simp
  have "declared_size env (bytes_get_reply env scontrol s) < 2 ^ 32"
       "0 \<le> declared_size env (bytes_get_reply env scontrol s)"
    unfolding declared_size_def using uint_lt2p [of "abi_hdr_size env (data (control_data (snd (bytes_get_reply env scontrol s))))"]
    by simp_all
  then have t: "(declared_size env (bytes_get_reply env scontrol s) + int (sizeof_sof_abi_hdr env)) mod 2 ^ 64
        = declared_size env (bytes_get_reply env scontrol s) + int (sizeof_sof_abi_hdr env)"
    using assms(5) by simp
  have g: "\<not> be_max mod 2 ^ 64 > 512" using m assms(3) by simp
  show ?thesis
    unfolding bytes_get_unfold [OF assms(1) g] Let_def t m using assms(4) by simp
qed

lemma bytes_ext_get_rejects_oversize:
  assumes "0 \<le> resume_ret env"
    and "declared_size env (bytes_ext_get_reply env scontrol s) + int (sizeof_sof_abi_hdr env) > be_max"
    and "declared_size env (bytes_ext_get_reply env scontrol s) + int (sizeof_sof_abi_hdr env) < 2 ^ 31"
  shows "snd_sof_bytes_ext_get env be_max scontrol binary_data sz s =
           (- EINVAL, binary_data, pm_idle env (snd (bytes_ext_get_reply env scontrol s)))"
proof -
  let ?t = "declared_size env (bytes_ext_get_reply env scontrol s) + int (sizeof_sof_abi_hdr env)"
  have "0 \<le> declared_size env (bytes_ext_get_reply env scontrol s)"
    unfolding declared_size_def by simp
  then have nn: "0 \<le> ?t" by simp
  then have t: "?t mod 2 ^ 64 = ?t" using assms(3) by simp
  have i: "to_int32 ?t = ?t" using nn assms(3) by (intro to_int32_id) simp_all
  show ?thesis
    unfolding bytes_ext_get_unfold [OF assms(1)] Let_def t i using assms(2) by simp
qed

lemma bytes_ext_get_ignores_size:
  "snd_sof_bytes_ext_get env be_max scontrol binary_data sz s =
   snd_sof_bytes_ext_get env be_max scontrol binary_data sz' s"
  unfolding snd_sof_bytes_ext_get_def by (simp add: Let_def case_prod_beta)


lemma copy_to_user_ok:
  "to + n \<le> length umem \<Longrightarrow>
   copy_to_user umem to from n = (0, take to umem @ map from [0..<n] @ drop (to + n) umem)"
  by (simp add: copy_to_user_def Let_def)

lemma copy_to_user_length:
  "to + n \<le> length umem \<Longrightarrow> length (snd (copy_to_user umem to from n)) = length umem"
  by (simp add: copy_to_user_ok)

lemma copy_to_user_nth:
  "to + n \<le> length umem \<Longrightarrow> i < n \<Longrightarrow> snd (copy_to_user umem to from n) ! (to + i) = from i"
  by (simp add: copy_to_user_ok nth_append)

lemma bytes_ext_get_copies:
  assumes "0 \<le> resume_ret env"
    and n: "n = to_int32 ((declared_size env (bytes_ext_get_reply env scontrol s) +
                  int (sizeof_sof_abi_hdr env)) mod 2 ^ 64)"
    and "0 \<le> n" "n \<le> be_max" "8 + nat n \<le> length binary_data"
  shows "\<exists>u. snd_sof_bytes_ext_get env be_max scontrol binary_data sz s =
             (fst (bytes_ext_get_reply env scontrol s), u,
              pm_idle env (snd (bytes_ext_get_reply env scontrol s))) \<and>
           length u = length binary_data \<and>
           (\<forall>i. i < nat n \<longrightarrow> u ! (8 + i) = data (control_data (snd (bytes_ext_get_reply env scontrol s))) i)"
proof -
  define header where "header = write32 (write32 (\<lambda>i. 0) 0 (cmd scontrol)) 4 (word_of_int n)"
  define u1 where "u1 = snd (copy_to_user binary_data 0 header 8)"
  have c1: "copy_to_user binary_data 0 header 8 = (0, u1)" "length u1 = length binary_data"
    using assms(5) by (simp_all add: u1_def copy_to_user_ok)
  have m: "n mod 2 ^ 64 = n"
  proof -
    have "n < 2 ^ 31" unfolding n to_int32_def using sint_lt [where 'a = 32] by simp
    with assms(3) show ?thesis by simp
  qed
  define u2 where "u2 = snd (copy_to_user u1 8 (data (control_data (snd (bytes_ext_get_reply env scontrol s)))) (nat n))"
  have l: "8 + nat n \<le> length u1" using assms(5) c1(2) by simp
  have c2: "fst (copy_to_user u1 8 (data (control_data (snd (bytes_ext_get_reply env scontrol s)))) (nat n)) = 0"
    using l by (simp add: copy_to_user_ok)
  have r: "snd_sof_bytes_ext_get env be_max scontrol binary_data sz s =
             (fst (bytes_ext_get_reply env scontrol s), u2,
              pm_idle env (snd (bytes_ext_get_reply env scontrol s)))"
    unfolding bytes_ext_get_unfold [OF assms(1)] Let_def n [symmetric] header_def [symmetric] c1 m
    using assms(4) c2 by (simp add: u2_def)
  have "length u2 = length binary_data"
    unfolding u2_def using l c1(2) by (simp add: copy_to_user_length)
  moreover have "\<forall>i. i < nat n \<longrightarrow> u2 ! (8 + i) = data (control_data (snd (bytes_ext_get_reply env scontrol s))) i"
    unfolding u2_def using l by (simp add: copy_to_user_nth)
  ultimately show ?thesis using r by blast
qed

text \<open>
  Claim C9: every bytes get checks the declared payload size plus the header size
  against the capacity after the transaction, and on violation returns an error
  without copying data out. \<^verbatim>\<open>snd_sof_bytes_get\<close> does (\<open>bytes_get_rejects_oversize\<close>),
  and \<^verbatim>\<open>snd_sof_bytes_ext_get\<close> does while the sum stays below \<open>2 ^ 31\<close>
  (\<open>bytes_ext_get_rejects_oversize\<close>). But \<^verbatim>\<open>snd_sof_bytes_ext_get\<close> keeps the sum
  in an \<^verbatim>\<open>int\<close>: with capacity 64 and header size 12, a reply that declares
  \<open>0xFFFFFFFF\<close> bytes gives \<^verbatim>\<open>data_size = 11\<close>, the check passes, the envelope and
  11 bytes are copied to the caller and the handler returns 0.
\<close>

theorem bytes_ext_get_size_check_wraps:
  "(\<lambda>(ret, u, s). (ret, take 19 u, uint (abi_hdr_size (ex_env_reply 0xFFFFFFFF) (data (control_data s)))))
     (snd_sof_bytes_ext_get (ex_env_reply 0xFFFFFFFF) 64 ex_control (replicate 128 0) 128 ex_state)
   = (0, [3, 0, 0, 0, 11, 0, 0, 0, 0x53, 0x4F, 0x46, 0, 0, 0, 0, 3, 255, 255, 255], 4294967295)"
  by code_simp

text \<open>
  The scenario of the specification, capacity 64, header size 12 and declared payload
  size 60, is rejected by both handlers with nothing copied out.
\<close>

lemma bytes_get_scenario:
  "(\<lambda>(ret, u, s). (ret, map (bytes_data u) [0..<4], length (ipc_trace s)))
     (snd_sof_bytes_get (ex_env_reply 60) 64 ex_control ex_ucontrol ex_state)
   = (- 22, [0, 0, 0, 0], 1)"
  by code_simp

lemma bytes_ext_get_scenario:
  "(\<lambda>(ret, u, s). (ret, u, length (ipc_trace s)))
     (snd_sof_bytes_ext_get (ex_env_reply 60) 64 ex_control (replicate 128 0) 128 ex_state)
   = (- 22, replicate 128 0, 1)"
  by code_simp

text \<open>
  Claim C10. \<^verbatim>\<open>snd_sof_bytes_ext_get\<close> never compares what it copies out with the
  \<^verbatim>\<open>size\<close> argument: its result is the same for every value of that argument, the
  decrement by the envelope size being a dead store. The only check is the one of
  \<^verbatim>\<open>data_size\<close> against \<^verbatim>\<open>be->max\<close>; whenever it passes (and the memory behind the
  caller's pointer is accessible), the 8 bytes of the envelope and \<^verbatim>\<open>data_size\<close>
  bytes, up to \<^verbatim>\<open>be->max\<close>, are written to the caller, whatever capacity the caller
  declared. The instance below has \<^verbatim>\<open>size = 16\<close>, \<^verbatim>\<open>be->max = 64\<close>, and 72 bytes
  written.
\<close>

theorem bytes_ext_get_overruns_caller_size:
  assumes "0 \<le> resume_ret env"
    and "n = to_int32 ((declared_size env (bytes_ext_get_reply env scontrol s) +
                  int (sizeof_sof_abi_hdr env)) mod 2 ^ 64)"
    and "0 \<le> n" "n \<le> be_max" "8 + nat n \<le> length binary_data"
  shows "snd_sof_bytes_ext_get env be_max scontrol binary_data sz s =
           snd_sof_bytes_ext_get env be_max scontrol binary_data sz' s \<and>
         (\<exists>u. snd_sof_bytes_ext_get env be_max scontrol binary_data sz s =
             (fst (bytes_ext_get_reply env scontrol s), u,
              pm_idle env (snd (bytes_ext_get_reply env scontrol s))) \<and>
           length u = length binary_data \<and>
           (\<forall>i. i < nat n \<longrightarrow>
              u ! (8 + i) = data (control_data (snd (bytes_ext_get_reply env scontrol s))) i))"
  using bytes_ext_get_ignores_size [of env be_max scontrol binary_data sz s sz']
        bytes_ext_get_copies [OF assms, of sz]
  by (rule conjI)

lemma ex_reply_52:
  "resume_ret (ex_env_reply 52) = 0"
  "to_int32 ((declared_size (ex_env_reply 52) (bytes_ext_get_reply (ex_env_reply 52) ex_control ex_state) +
       int (sizeof_sof_abi_hdr (ex_env_reply 52))) mod 2 ^ 64) = 64"
  "fst (bytes_ext_get_reply (ex_env_reply 52) ex_control ex_state) = 0"
  "data (control_data (snd (bytes_ext_get_reply (ex_env_reply 52) ex_control ex_state))) 63 = 0xAA"
  by code_simp+

theorem bytes_ext_get_overruns_caller_size_witness:
  "\<exists>u s'. snd_sof_bytes_ext_get (ex_env_reply 52) 64 ex_control (replicate 128 0) 16 ex_state =
            (0, u, s') \<and> length u = 128 \<and> u ! 71 = 0xAA"
proof -
  have h1: "0 \<le> resume_ret (ex_env_reply 52)" by (simp add: ex_reply_52)
  have h2: "64 = to_int32 ((declared_size (ex_env_reply 52)
                (bytes_ext_get_reply (ex_env_reply 52) ex_control ex_state) +
                int (sizeof_sof_abi_hdr (ex_env_reply 52))) mod 2 ^ 64)"
    by (rule ex_reply_52(2) [symmetric])
  have h3: "(0::int) \<le> 64" "(64::int) \<le> 64" "8 + nat 64 \<le> length (replicate 128 (0::u8))"
    by simp_all
  from bytes_ext_get_overruns_caller_size [OF h1 h2 h3, of 16 16]
  obtain u where u: "snd_sof_bytes_ext_get (ex_env_reply 52) 64 ex_control (replicate 128 0) 16 ex_state =
             (fst (bytes_ext_get_reply (ex_env_reply 52) ex_control ex_state), u,
              pm_idle (ex_env_reply 52) (snd (bytes_ext_get_reply (ex_env_reply 52) ex_control ex_state)))"
    "length u = length (replicate 128 (0::u8))"
    "\<forall>i. i < nat 64 \<longrightarrow>
        u ! (8 + i) = data (control_data (snd (bytes_ext_get_reply (ex_env_reply 52) ex_control ex_state))) i"
    by blast
  have "(63::nat) < nat 64" by simp
  with u(3) have "u ! (8 + 63) =
      data (control_data (snd (bytes_ext_get_reply (ex_env_reply 52) ex_control ex_state))) 63"
    by blast
  then have "u ! 71 = 0xAA" by (simp add: ex_reply_52)
  with u(1,2) show ?thesis by (simp add: ex_reply_52)
qed

subsection \<open>Transactions of the value handlers\<close>

lemma pm_idle_fields [simp]:
  "ipc_trace (pm_idle env s) = ipc_trace s"
  "tx_trace (pm_idle env s) = tx_trace s"
  "control_data (pm_idle env s) = control_data s"
  by (simp_all add: pm_defs)

lemma get_sync_fields [simp]:
  "fst (pm_runtime_get_sync env s) = resume_ret env"
  "ipc_trace (snd (pm_runtime_get_sync env s)) = ipc_trace s"
  "tx_trace (snd (pm_runtime_get_sync env s)) = tx_trace s"
  "control_data (snd (pm_runtime_get_sync env s)) = control_data s"
  "widget_list (snd (pm_runtime_get_sync env s)) = widget_list s"
  by (simp_all add: pm_defs)

lemma ipc_fields [simp]:
  "ipc_trace (snd (snd_sof_ipc_set_get_comp_data env scontrol icmd ctype ccmd send s)) =
     ipc_trace s @ [\<lparr>call_comp_id = comp_id scontrol, call_num_channels = num_channels scontrol,
                  call_ipc_cmd = icmd, call_type = ctype, call_cmd = ccmd, call_send = send,
                  call_data = control_data s\<rparr>]"
  "tx_trace (snd (snd_sof_ipc_set_get_comp_data env scontrol icmd ctype ccmd send s)) = tx_trace s"
  "fst (snd_sof_ipc_set_get_comp_data env scontrol icmd ctype ccmd send s) =
     fst (dsp_comp_data env \<lparr>call_comp_id = comp_id scontrol, call_num_channels = num_channels scontrol,
                  call_ipc_cmd = icmd, call_type = ctype, call_cmd = ccmd, call_send = send,
                  call_data = control_data s\<rparr>)"
  by (simp_all add: snd_sof_ipc_set_get_comp_data_def Let_def case_prod_beta)

lemma siggen_fields [simp]:
  "ipc_trace (snd (siggen_pipeline_trigger env scontrol new_state s)) = ipc_trace s"
  by (simp add: siggen_pipeline_trigger_def siggen_trigger_def siggen_pcm_params_def
        sof_ipc_tx_message_def set_vfe_active_status_def snd_soc_dpcm_runtime_update_def
        Let_def case_prod_beta)










lemma word_of_to_int32 [simp]: "(word_of_int (to_int32 x) :: u32) = word_of_int x"
  by (simp add: to_int32_def)




















subsection \<open>The result of the transaction\<close>




end
